theory Spec2Isabelle
  imports Complex_Main "HOL-Library.AList"
begin

section \<open>Numbers, strings and small Python idioms\<close>

text \<open>
  Prices, volumes and thresholds are Python floats; finite floats are idealised as reals
  (no rounding). The values that are not finite are kept where the code can meet them:
  \<open>NaN\<close> is what the external indicator library returns for warm-up positions of a
  series, and numpy division by zero gives an infinity or \<open>NaN\<close> instead of raising.
\<close>

datatype pyfloat = Fin real | PInf | NInf | NaN

text \<open>Python truthiness of a float: only zero is false (\<open>NaN\<close> is true).\<close>

fun truthy :: "pyfloat \<Rightarrow> bool" where
  "truthy (Fin r) = (r \<noteq> 0)"
| "truthy _ = True"

text \<open>IEEE comparisons: every comparison with \<open>NaN\<close> is false.\<close>

fun float_lt :: "pyfloat \<Rightarrow> pyfloat \<Rightarrow> bool" where
  "float_lt (Fin a) (Fin b) = (a < b)"
| "float_lt (Fin a) PInf = True"
| "float_lt NInf (Fin b) = True"
| "float_lt NInf PInf = True"
| "float_lt _ _ = False"

definition float_le :: "pyfloat \<Rightarrow> pyfloat \<Rightarrow> bool" where
  "float_le a b = (float_lt a b \<or> (a = b \<and> a \<noteq> NaN))"

text \<open>numpy \<open>a / b\<close> on float64 with a finite numerator: no exception on a zero divisor.\<close>

definition np_div :: "real \<Rightarrow> real \<Rightarrow> pyfloat" where
  "np_div a b =
     (if b \<noteq> 0 then Fin (a / b) else if 0 < a then PInf else if a < 0 then NInf else NaN)"

fun np_times :: "pyfloat \<Rightarrow> real \<Rightarrow> pyfloat" where
  "np_times (Fin a) c = Fin (a * c)"
| "np_times PInf c = (if 0 < c then PInf else if c < 0 then NInf else NaN)"
| "np_times NInf c = (if 0 < c then NInf else if c < 0 then PInf else NaN)"
| "np_times NaN c = NaN"

text \<open>\<open>str.upper\<close> and \<open>str.lower\<close> on ASCII text (directions and trend names are ASCII).\<close>

definition upper_char :: "char \<Rightarrow> char" where
  "upper_char c =
     (let n = (of_char c :: nat) in if 97 \<le> n \<and> n \<le> 122 then char_of (n - 32) else c)"

definition lower_char :: "char \<Rightarrow> char" where
  "lower_char c =
     (let n = (of_char c :: nat) in if 65 \<le> n \<and> n \<le> 90 then char_of (n + 32) else c)"

definition upper :: "string \<Rightarrow> string" where
  "upper s = map upper_char s"

definition lower :: "string \<Rightarrow> string" where
  "lower s = map lower_char s"

text \<open>\<open>series.iloc[-1]\<close>: the last element, \<open>None\<close> standing for the IndexError on an
  empty series; \<open>series.iloc[-2]\<close> likewise.\<close>

definition iloc_last :: "'a list \<Rightarrow> 'a option" where
  "iloc_last xs = (if xs = [] then None else Some (last xs))"

definition iloc_prev :: "'a list \<Rightarrow> 'a option" where
  "iloc_prev xs = (if length xs < 2 then None else Some (xs ! (length xs - 2)))"

text \<open>\<open>series.tail(n)\<close>: the last \<open>n\<close> elements, all of them when there are fewer.\<close>

definition tail :: "nat \<Rightarrow> 'a list \<Rightarrow> 'a list" where
  "tail n xs = drop (length xs - n) xs"

text \<open>Maximum, minimum and mean of a non-empty series of finite values.\<close>

definition series_max :: "real list \<Rightarrow> real" where
  "series_max xs = fold max (tl xs) (hd xs)"

definition series_min :: "real list \<Rightarrow> real" where
  "series_min xs = fold min (tl xs) (hd xs)"

definition mean :: "real list \<Rightarrow> real" where
  "mean xs = sum_list xs / real (length xs)"

section \<open>Data model\<close>

text \<open>One OHLCV bar. The frame's index is the timestamp.\<close>

record candle =
  timestamp :: int
  opn :: real
  high :: real
  low :: real
  close :: real
  volume :: real

text \<open>
  A pandas DataFrame of candles: the OHLCV rows, and the further columns that code has
  assigned to the frame (\<open>df[name] = series\<close>), in insertion order. A DataFrame is passed
  by reference, so a function that assigns a column returns the frame it leaves behind.
\<close>

record dataframe =
  rows :: "candle list"
  extra :: "(string \<times> pyfloat list) list"

definition df_len :: "dataframe \<Rightarrow> nat" where
  "df_len df = length (rows df)"

definition col :: "(candle \<Rightarrow> real) \<Rightarrow> dataframe \<Rightarrow> real list" where
  "col f df = map f (rows df)"

text \<open>\<open>df[name] = series\<close>: replaces the column in place when it exists, appends it otherwise.\<close>

definition set_column :: "string \<Rightarrow> pyfloat list \<Rightarrow> dataframe \<Rightarrow> dataframe" where
  "set_column name series df = df\<lparr>extra := AList.update name series (extra df)\<rparr>"

text \<open>
  The external indicator library \<open>ta\<close> is not part of the repository: its four entry points
  are parameters. Each takes the columns it is given and returns a series, or \<open>None\<close> when the
  library raises.
\<close>

record ta_lib =
  ta_rsi :: "real list \<Rightarrow> nat \<Rightarrow> pyfloat list option"
  ta_ema :: "real list \<Rightarrow> nat \<Rightarrow> pyfloat list option"
  ta_obv :: "real list \<Rightarrow> real list \<Rightarrow> pyfloat list option"
  ta_atr :: "real list \<Rightarrow> real list \<Rightarrow> real list \<Rightarrow> nat \<Rightarrow> pyfloat list option"

text \<open>
  The dictionary returned by \<open>get_comprehensive_analysis\<close>. \<open>None\<close> in a field: the key is
  missing or holds Python's \<open>None\<close>; the empty dictionary is the record of all \<open>None\<close>.
\<close>

record analysis =
  rsi_7 :: "pyfloat option"
  rsi_14 :: "pyfloat option"
  ema_20 :: "pyfloat option"
  ema_50 :: "pyfloat option"
  obv :: "pyfloat option"
  obv_trend :: "string option"
  atr :: "pyfloat option"
  trend :: "string option"
  volume_spike :: "bool option"
  candlestick_patterns :: "(string \<times> bool) list option"
  support :: "real option"
  resistance :: "real option"
  current_price :: "real option"
  current_volume :: "real option"

definition empty_analysis :: analysis where
  "empty_analysis =
     \<lparr>rsi_7 = None, rsi_14 = None, ema_20 = None, ema_50 = None, obv = None,
      obv_trend = None, atr = None, trend = None, volume_spike = None,
      candlestick_patterns = None, support = None, resistance = None,
      current_price = None, current_volume = None\<rparr>"

section \<open>Indicator engine (technical_analysis.py)\<close>

text \<open>The four wrappers catch every exception of the library and return an empty series.\<close>

definition calculate_rsi :: "ta_lib \<Rightarrow> dataframe \<Rightarrow> nat \<Rightarrow> pyfloat list" where
  "calculate_rsi ta df period =
     (case ta_rsi ta (col close df) period of Some s \<Rightarrow> s | None \<Rightarrow> [])"

definition calculate_ema :: "ta_lib \<Rightarrow> dataframe \<Rightarrow> nat \<Rightarrow> pyfloat list" where
  "calculate_ema ta df period =
     (case ta_ema ta (col close df) period of Some s \<Rightarrow> s | None \<Rightarrow> [])"

definition calculate_obv :: "ta_lib \<Rightarrow> dataframe \<Rightarrow> pyfloat list" where
  "calculate_obv ta df =
     (case ta_obv ta (col close df) (col volume df) of Some s \<Rightarrow> s | None \<Rightarrow> [])"

definition calculate_atr :: "ta_lib \<Rightarrow> dataframe \<Rightarrow> nat \<Rightarrow> pyfloat list" where
  "calculate_atr ta df period =
     (case ta_atr ta (col high df) (col low df) (col close df) period of
        Some s \<Rightarrow> s | None \<Rightarrow> [])"

text \<open>
  \<open>detect_volume_spike\<close>: the last volume against the mean of the \<open>lookback\<close> volumes before
  it. With \<open>lookback = 0\<close> the slice is empty, its mean is \<open>NaN\<close> and the comparison is false.
\<close>

definition detect_volume_spike :: "dataframe \<Rightarrow> real \<Rightarrow> nat \<Rightarrow> bool" where
  "detect_volume_spike df multiplier lookback =
     (if df_len df < lookback + 1 then False
      else if lookback = 0 then False
      else let current_volume = last (col volume df);
               avg_volume = mean (butlast (tail (lookback + 1) (col volume df)))
           in current_volume > avg_volume * multiplier)"

definition is_doji :: "candle \<Rightarrow> bool" where
  "is_doji c =
     (let body_size = \<bar>close c - opn c\<bar>; candle_range = high c - low c
      in body_size \<le> candle_range * 0.1)"

definition is_hammer :: "candle \<Rightarrow> bool" where
  "is_hammer c =
     (let body_size = \<bar>close c - opn c\<bar>;
          lower_shadow = min (opn c) (close c) - low c;
          upper_shadow = high c - max (opn c) (close c)
      in lower_shadow \<ge> body_size * 2 \<and> upper_shadow \<le> body_size * 0.5 \<and> body_size > 0)"

definition is_inverted_hammer :: "candle \<Rightarrow> bool" where
  "is_inverted_hammer c =
     (let body_size = \<bar>close c - opn c\<bar>;
          lower_shadow = min (opn c) (close c) - low c;
          upper_shadow = high c - max (opn c) (close c)
      in upper_shadow \<ge> body_size * 2 \<and> lower_shadow \<le> body_size * 0.5 \<and> body_size > 0)"

definition is_bullish_engulfing :: "candle \<Rightarrow> candle \<Rightarrow> bool" where
  "is_bullish_engulfing prev_candle current_candle =
     (let prev_bearish = close prev_candle < opn prev_candle;
          current_bullish = close current_candle > opn current_candle;
          engulfs = (opn current_candle < close prev_candle
                     \<and> close current_candle > opn prev_candle)
      in prev_bearish \<and> current_bullish \<and> engulfs)"

definition is_bearish_engulfing :: "candle \<Rightarrow> candle \<Rightarrow> bool" where
  "is_bearish_engulfing prev_candle current_candle =
     (let prev_bullish = close prev_candle > opn prev_candle;
          current_bearish = close current_candle < opn current_candle;
          engulfs = (opn current_candle > close prev_candle
                     \<and> close current_candle < opn prev_candle)
      in prev_bullish \<and> current_bearish \<and> engulfs)"

definition is_bullish_pinbar :: "candle \<Rightarrow> bool" where
  "is_bullish_pinbar c =
     (let body_size = \<bar>close c - opn c\<bar>;
          lower_shadow = min (opn c) (close c) - low c;
          upper_shadow = high c - max (opn c) (close c);
          total_range = high c - low c
      in lower_shadow \<ge> total_range * 0.6 \<and> body_size \<le> total_range * 0.3
         \<and> upper_shadow \<le> total_range * 0.2)"

definition is_bearish_pinbar :: "candle \<Rightarrow> bool" where
  "is_bearish_pinbar c =
     (let body_size = \<bar>close c - opn c\<bar>;
          lower_shadow = min (opn c) (close c) - low c;
          upper_shadow = high c - max (opn c) (close c);
          total_range = high c - low c
      in upper_shadow \<ge> total_range * 0.6 \<and> body_size \<le> total_range * 0.3
         \<and> lower_shadow \<le> total_range * 0.2)"

text \<open>\<open>identify_candlestick_patterns\<close>: the empty dictionary below three bars.\<close>

definition identify_candlestick_patterns :: "dataframe \<Rightarrow> (string \<times> bool) list" where
  "identify_candlestick_patterns df =
     (if df_len df < 3 then []
      else let cur = last (rows df); prv = rows df ! (df_len df - 2)
           in [(''doji'', is_doji cur),
               (''hammer'', is_hammer cur),
               (''inverted_hammer'', is_inverted_hammer cur),
               (''bullish_engulfing'', is_bullish_engulfing prv cur),
               (''bearish_engulfing'', is_bearish_engulfing prv cur),
               (''bullish_pinbar'', is_bullish_pinbar cur),
               (''bearish_pinbar'', is_bearish_pinbar cur)])"

text \<open>
  \<open>analyze_trend\<close>: \<open>iloc[-1]\<close> on an empty series raises inside the function's own
  \<open>try\<close>, which answers neutral; a \<open>NaN\<close> on either side fails both comparisons.
\<close>

definition analyze_trend :: "ta_lib \<Rightarrow> dataframe \<Rightarrow> nat \<Rightarrow> nat \<Rightarrow> string" where
  "analyze_trend ta df fast_ema slow_ema =
     (if df_len df < max fast_ema slow_ema then ''neutral''
      else case (iloc_last (calculate_ema ta df fast_ema),
                 iloc_last (calculate_ema ta df slow_ema)) of
             (Some f, Some s) \<Rightarrow>
               if float_lt s f then ''bullish''
               else if float_lt f s then ''bearish''
               else ''neutral''
           | _ \<Rightarrow> ''neutral'')"

text \<open>
  \<open>calculate_support_resistance\<close>: \<open>rolling(window, center=True)\<close> has a value exactly at
  the positions whose whole window lies inside the frame, so after \<open>dropna\<close> the series
  holds one value per run of \<open>window\<close> consecutive bars, in order; the function takes the
  last one. The fallback to the global extremum is kept as the source has it.
\<close>

definition rolling_windows :: "nat \<Rightarrow> real list \<Rightarrow> real list list" where
  "rolling_windows w xs =
     (if w = 0 \<or> length xs < w then []
      else map (\<lambda>k. take w (drop k xs)) [0 ..< length xs - w + 1])"

definition calculate_support_resistance :: "dataframe \<Rightarrow> nat \<Rightarrow> real option \<times> real option" where
  "calculate_support_resistance df window =
     (if df_len df < window then (None, None)
      else let highs = map series_max (rolling_windows window (col high df));
               lows = map series_min (rolling_windows window (col low df));
               recent_high = (if highs \<noteq> [] then last highs else series_max (col high df));
               recent_low = (if lows \<noteq> [] then last lows else series_min (col low df))
           in (Some recent_low, Some recent_high))"

text \<open>
  \<open>get_comprehensive_analysis\<close>. An \<open>iloc[-1]\<close> on an empty series raises IndexError, which
  the function's \<open>try\<close> turns into the empty dictionary: \<open>analysis_body\<close> is the body of
  the \<open>try\<close>, \<open>None\<close> standing for the exception, and \<open>Option.bind\<close> is the
  sequencing of statements that may raise.
\<close>

definition indicator_last :: "bool \<Rightarrow> pyfloat list \<Rightarrow> pyfloat option option" where
  "indicator_last enough series =
     (if enough then (case iloc_last series of None \<Rightarrow> None | Some v \<Rightarrow> Some (Some v))
      else Some None)"

definition analysis_body :: "ta_lib \<Rightarrow> dataframe \<Rightarrow> analysis option" where
  "analysis_body ta df =
     Option.bind (indicator_last (df_len df \<ge> 7) (calculate_rsi ta df 7)) (\<lambda>r7.
     Option.bind (indicator_last (df_len df \<ge> 14) (calculate_rsi ta df 14)) (\<lambda>r14.
     Option.bind (indicator_last (df_len df \<ge> 20) (calculate_ema ta df 20)) (\<lambda>e20.
     Option.bind (indicator_last (df_len df \<ge> 50) (calculate_ema ta df 50)) (\<lambda>e50.
       let obv_series = calculate_obv ta df;
           atr_series = calculate_atr ta df 14;
           sr_levels = calculate_support_resistance df 20
       in Option.bind (iloc_last (col close df)) (\<lambda>cp.
          Option.bind (iloc_last (col volume df)) (\<lambda>cv.
            Some \<lparr>rsi_7 = r7, rsi_14 = r14, ema_20 = e20, ema_50 = e50,
                  obv = iloc_last obv_series,
                  obv_trend =
                    Some (if length obv_series \<ge> 2
                             \<and> float_lt (obv_series ! (length obv_series - 2)) (last obv_series)
                          then ''rising'' else ''falling''),
                  atr = iloc_last atr_series,
                  trend = Some (analyze_trend ta df 20 50),
                  volume_spike = Some (detect_volume_spike df 2.0 20),
                  candlestick_patterns = Some (identify_candlestick_patterns df),
                  support = fst sr_levels,
                  resistance = snd sr_levels,
                  current_price = Some cp,
                  current_volume = Some cv\<rparr>))))))"

definition get_comprehensive_analysis :: "ta_lib \<Rightarrow> dataframe \<Rightarrow> analysis" where
  "get_comprehensive_analysis ta df =
     (case analysis_body ta df of Some a \<Rightarrow> a | None \<Rightarrow> empty_analysis)"

section \<open>Helpers (helpers.py) and configuration (config.py)\<close>

definition RSI_OVERSOLD :: real where
  "RSI_OVERSOLD = 30"

definition RSI_OVERBOUGHT :: real where
  "RSI_OVERBOUGHT = 70"

text \<open>\<open>calculate_fibonacci_levels\<close>: the dictionary in insertion order. Every direction
  other than \<open>long\<close> (in any case) takes the short branch.\<close>

definition calculate_fibonacci_levels :: "real \<Rightarrow> real \<Rightarrow> string \<Rightarrow> (string \<times> real) list" where
  "calculate_fibonacci_levels hi lo direction =
     (let diff = hi - lo in
      if lower direction = ''long''
      then [(''TP1'', lo + diff * 0.382), (''TP2'', lo + diff * 0.618),
            (''TP3'', lo + diff * 1.0), (''TP4'', lo + diff * 1.618)]
      else [(''TP1'', hi - diff * 0.382), (''TP2'', hi - diff * 0.618),
            (''TP3'', hi - diff * 1.0), (''TP4'', hi - diff * 1.618)])"

text \<open>
  \<open>calculate_atr_stop_loss\<close> writes its four working columns into the frame it is given.
  \<open>close.shift(1)\<close> starts with \<open>NaN\<close>, and the row-wise \<open>max(axis=1)\<close> skips \<open>NaN\<close>.
\<close>

definition shift1 :: "real list \<Rightarrow> pyfloat list" where
  "shift1 xs = (if xs = [] then [] else NaN # map Fin (butlast xs))"

fun abs_diff :: "real \<Rightarrow> pyfloat \<Rightarrow> pyfloat" where
  "abs_diff h (Fin c) = Fin \<bar>h - c\<bar>"
| "abs_diff h _ = NaN"

fun finite_part :: "pyfloat \<Rightarrow> real option" where
  "finite_part (Fin r) = Some r"
| "finite_part _ = None"

definition skipna_max :: "pyfloat list \<Rightarrow> pyfloat" where
  "skipna_max xs =
     (let fs = List.map_filter finite_part xs in if fs = [] then NaN else Fin (series_max fs))"

definition high_low_col :: "dataframe \<Rightarrow> pyfloat list" where
  "high_low_col df = map (\<lambda>c. Fin (high c - low c)) (rows df)"

definition high_close_col :: "dataframe \<Rightarrow> pyfloat list" where
  "high_close_col df = map2 abs_diff (col high df) (shift1 (col close df))"

definition low_close_col :: "dataframe \<Rightarrow> pyfloat list" where
  "low_close_col df = map2 abs_diff (col low df) (shift1 (col close df))"

definition true_range_col :: "dataframe \<Rightarrow> pyfloat list" where
  "true_range_col df =
     map (\<lambda>(a, b, c). skipna_max [a, b, c])
       (zip (high_low_col df) (zip (high_close_col df) (low_close_col df)))"

text \<open>
  The last value of \<open>rolling(window).mean()\<close> for a frame of at least \<open>window\<close> rows and
  \<open>window \<ge> 1\<close>: the mean of the last \<open>window\<close> true ranges, each of them finite since
  \<open>high - low\<close> is. Every call in the repository passes the period 14.
\<close>

definition rolling_mean_last :: "nat \<Rightarrow> pyfloat list \<Rightarrow> real" where
  "rolling_mean_last window xs = mean (List.map_filter finite_part (tail window xs))"

definition calculate_atr_stop_loss ::
    "dataframe \<Rightarrow> nat \<Rightarrow> real \<Rightarrow> string \<Rightarrow> dataframe \<times> real option" where
  "calculate_atr_stop_loss df atr_period multiplier direction =
     (if df_len df < atr_period then (df, None)
      else let df1 = set_column ''high_low'' (high_low_col df) df;
               df2 = set_column ''high_close'' (high_close_col df) df1;
               df3 = set_column ''low_close'' (low_close_col df) df2;
               df4 = set_column ''true_range'' (true_range_col df) df3;
               atr_value = rolling_mean_last atr_period (true_range_col df);
               current_price = last (col close df);
               stop_loss_value =
                 (if lower direction = ''long''
                  then current_price - atr_value * multiplier
                  else current_price + atr_value * multiplier)
           in (df4, Some stop_loss_value))"

section \<open>Entry signal scorer (signal_generator.py)\<close>

text \<open>The reasons are the source's messages, as tags carrying the value the message prints.\<close>

datatype entry_reason =
    BtcTrendBullish | Rsi7Oversold pyfloat | Rsi14Oversold pyfloat | EmaTrendBullish5m
  | ObvRising | VolumeSpikeDetected | PatternDetected string | PriceNearSupport
  | BtcTrendBearish | Rsi7Overbought pyfloat | Rsi14Overbought pyfloat | EmaTrendBearish5m
  | ObvFalling | PriceNearResistance

record conditions =
  score :: int
  score_reasons :: "entry_reason list"

text \<open>One scoring rule: \<open>if cond: score += 1; reasons.append(reason)\<close>.\<close>

definition award :: "bool \<Rightarrow> entry_reason \<Rightarrow> conditions \<Rightarrow> conditions" where
  "award cond reason c =
     (if cond then \<lparr>score = score c + 1, score_reasons = score_reasons c @ [reason]\<rparr> else c)"

text \<open>\<open>rsi and rsi < threshold\<close>, \<open>rsi and rsi > threshold\<close>: an absent value and a zero
  value are both false before the comparison is made.\<close>

definition rsi_below :: "pyfloat option \<Rightarrow> real \<Rightarrow> bool" where
  "rsi_below r threshold =
     (case r of None \<Rightarrow> False | Some v \<Rightarrow> truthy v \<and> float_lt v (Fin threshold))"

definition rsi_above :: "pyfloat option \<Rightarrow> real \<Rightarrow> bool" where
  "rsi_above r threshold =
     (case r of None \<Rightarrow> False | Some v \<Rightarrow> truthy v \<and> float_lt (Fin threshold) v)"

text \<open>The pattern loop: the first name of the list whose entry is true, then \<open>break\<close>.\<close>

definition bullish_patterns :: "string list" where
  "bullish_patterns = [''hammer'', ''bullish_engulfing'', ''bullish_pinbar'']"

definition bearish_patterns :: "string list" where
  "bearish_patterns = [''inverted_hammer'', ''bearish_engulfing'', ''bearish_pinbar'']"

definition patterns_of :: "analysis \<Rightarrow> (string \<times> bool) list" where
  "patterns_of a = (case candlestick_patterns a of None \<Rightarrow> [] | Some ps \<Rightarrow> ps)"

definition first_pattern :: "(string \<times> bool) list \<Rightarrow> string list \<Rightarrow> string option" where
  "first_pattern patterns names = List.find (\<lambda>p. map_of patterns p = Some True) names"

definition award_pattern :: "string option \<Rightarrow> conditions \<Rightarrow> conditions" where
  "award_pattern found c =
     (case found of None \<Rightarrow> c | Some p \<Rightarrow> award True (PatternDetected p) c)"

text \<open>\<open>current_price and support and current_price <= support * 1.02\<close>, and its short
  counterpart on the resistance.\<close>

definition price_near_support :: "analysis \<Rightarrow> analysis \<Rightarrow> bool" where
  "price_near_support analysis_1m analysis_5m =
     (case (current_price analysis_1m, support analysis_5m) of
        (Some p, Some s) \<Rightarrow> p \<noteq> 0 \<and> s \<noteq> 0 \<and> p \<le> s * 1.02
      | _ \<Rightarrow> False)"

definition price_near_resistance :: "analysis \<Rightarrow> analysis \<Rightarrow> bool" where
  "price_near_resistance analysis_1m analysis_5m =
     (case (current_price analysis_1m, resistance analysis_5m) of
        (Some p, Some r) \<Rightarrow> p \<noteq> 0 \<and> r \<noteq> 0 \<and> p \<ge> r * 0.98
      | _ \<Rightarrow> False)"

definition check_long_conditions :: "analysis \<Rightarrow> analysis \<Rightarrow> string \<Rightarrow> conditions" where
  "check_long_conditions analysis_1m analysis_5m btc_trend =
     (let c0 = \<lparr>score = 0, score_reasons = []\<rparr>;
          c1 = award (btc_trend = ''bullish'') BtcTrendBullish c0;
          c2 = award (rsi_below (rsi_7 analysis_1m) RSI_OVERSOLD)
                 (Rsi7Oversold (the (rsi_7 analysis_1m))) c1;
          c3 = award (rsi_below (rsi_14 analysis_1m) RSI_OVERSOLD)
                 (Rsi14Oversold (the (rsi_14 analysis_1m))) c2;
          c4 = award (trend analysis_5m = Some ''bullish'') EmaTrendBullish5m c3;
          c5 = award (obv_trend analysis_1m = Some ''rising'') ObvRising c4;
          c6 = award (volume_spike analysis_1m = Some True) VolumeSpikeDetected c5;
          c7 = award_pattern (first_pattern (patterns_of analysis_1m) bullish_patterns) c6;
          c8 = award (price_near_support analysis_1m analysis_5m) PriceNearSupport c7
      in c8)"

definition check_short_conditions :: "analysis \<Rightarrow> analysis \<Rightarrow> string \<Rightarrow> conditions" where
  "check_short_conditions analysis_1m analysis_5m btc_trend =
     (let c0 = \<lparr>score = 0, score_reasons = []\<rparr>;
          c1 = award (btc_trend = ''bearish'') BtcTrendBearish c0;
          c2 = award (rsi_above (rsi_7 analysis_1m) RSI_OVERBOUGHT)
                 (Rsi7Overbought (the (rsi_7 analysis_1m))) c1;
          c3 = award (rsi_above (rsi_14 analysis_1m) RSI_OVERBOUGHT)
                 (Rsi14Overbought (the (rsi_14 analysis_1m))) c2;
          c4 = award (trend analysis_5m = Some ''bearish'') EmaTrendBearish5m c3;
          c5 = award (obv_trend analysis_1m = Some ''falling'') ObvFalling c4;
          c6 = award (volume_spike analysis_1m = Some True) VolumeSpikeDetected c5;
          c7 = award_pattern (first_pattern (patterns_of analysis_1m) bearish_patterns) c6;
          c8 = award (price_near_resistance analysis_1m analysis_5m) PriceNearResistance c7
      in c8)"

text \<open>
  The signal dictionary. Its price, stop loss and Fibonacci levels are Python floats: the
  entry check stores finite values there, but the validation takes any signal dictionary,
  so these fields may also hold \<open>NaN\<close> or an infinity.
\<close>

record signal =
  has_signal :: bool
  direction :: "string option"
  strength :: int
  reasons :: "entry_reason list"
  price :: "pyfloat option"
  signal_rsi_7 :: "pyfloat option"
  signal_rsi_14 :: "pyfloat option"
  signal_volume_spike :: bool
  signal_patterns :: "(string \<times> bool) list"
  fibonacci_levels :: "(string \<times> pyfloat) list"
  stop_loss :: "pyfloat option"

text \<open>Finite values as Python floats.\<close>

definition as_floats :: "(string \<times> real) list \<Rightarrow> (string \<times> pyfloat) list" where
  "as_floats levels = map (\<lambda>(name, level). (name, Fin level)) levels"

definition initial_signal :: signal where
  "initial_signal =
     \<lparr>has_signal = False, direction = None, strength = 0, reasons = [], price = None,
      signal_rsi_7 = None, signal_rsi_14 = None, signal_volume_spike = False,
      signal_patterns = [], fibonacci_levels = [], stop_loss = None\<rparr>"

text \<open>
  \<open>check_entry_conditions\<close> after the two analyses are made (the assignments of the
  snapshot fields and the decision): \<open>entry_decision\<close>. The frame returned is the
  one-minute frame as the call leaves it.
\<close>

definition entry_decision ::
    "analysis \<Rightarrow> analysis \<Rightarrow> string \<Rightarrow> dataframe \<Rightarrow> dataframe \<Rightarrow> dataframe \<times> signal" where
  "entry_decision analysis_1m analysis_5m btc_trend df_1m df_5m =
     (let s = initial_signal
                \<lparr>price := map_option Fin (current_price analysis_1m),
                 signal_rsi_7 := rsi_7 analysis_1m,
                 signal_rsi_14 := rsi_14 analysis_1m,
                 signal_volume_spike :=
                   (case volume_spike analysis_1m of None \<Rightarrow> False | Some b \<Rightarrow> b),
                 signal_patterns := patterns_of analysis_1m\<rparr>;
          long_conditions = check_long_conditions analysis_1m analysis_5m btc_trend;
          short_conditions = check_short_conditions analysis_1m analysis_5m btc_trend;
          hi = series_max (tail 20 (col high df_5m));
          lo = series_min (tail 20 (col low df_5m))
      in if score long_conditions > score short_conditions \<and> score long_conditions \<ge> 3
         then let (df', sl) = calculate_atr_stop_loss df_1m 14 2.0 ''long''
              in (df', s\<lparr>has_signal := True, direction := Some ''LONG'',
                         strength := score long_conditions,
                         reasons := score_reasons long_conditions,
                         fibonacci_levels :=
                           as_floats (calculate_fibonacci_levels hi lo ''long''),
                         stop_loss := map_option Fin sl\<rparr>)
         else if score short_conditions > score long_conditions \<and> score short_conditions \<ge> 3
         then let (df', sl) = calculate_atr_stop_loss df_1m 14 2.0 ''short''
              in (df', s\<lparr>has_signal := True, direction := Some ''SHORT'',
                         strength := score short_conditions,
                         reasons := score_reasons short_conditions,
                         fibonacci_levels :=
                           as_floats (calculate_fibonacci_levels hi lo ''short''),
                         stop_loss := map_option Fin sl\<rparr>)
         else (df_1m, s))"

definition check_entry_conditions ::
    "ta_lib \<Rightarrow> dataframe \<Rightarrow> dataframe \<Rightarrow> string \<Rightarrow> dataframe \<times> signal" where
  "check_entry_conditions ta df_1m df_5m btc_trend =
     (if df_len df_1m < 50 \<or> df_len df_5m < 50 then (df_1m, initial_signal)
      else entry_decision (get_comprehensive_analysis ta df_1m)
             (get_comprehensive_analysis ta df_5m) btc_trend df_1m df_5m)"

text \<open>
  \<open>validate_signal_quality\<close>. \<open>not x or x <= 0\<close> rejects an absent value, a zero (which
  is false) and a value that compares at most 0; a \<open>NaN\<close> is true and fails the comparison,
  so it passes this test. \<open>not fib_levels\<close> rejects the empty dictionary, and
  \<open>all(level > 0 ...)\<close> rejects every level that does not compare above 0, \<open>NaN\<close> included.
\<close>

definition not_or_at_most_zero :: "pyfloat option \<Rightarrow> bool" where
  "not_or_at_most_zero x =
     (case x of None \<Rightarrow> True | Some v \<Rightarrow> \<not> truthy v \<or> float_le v (Fin 0))"

definition validate_signal_quality :: "signal \<Rightarrow> bool" where
  "validate_signal_quality s =
     (if \<not> has_signal s then False
      else if strength s < 3 then False
      else if not_or_at_most_zero (price s) then False
      else if not_or_at_most_zero (stop_loss s) then False
      else if fibonacci_levels s = []
              \<or> \<not> list_all (\<lambda>level. float_lt (Fin 0) level) (map snd (fibonacci_levels s))
      then False
      else True)"

text \<open>
  \<open>analyze_market\<close> (main.py), with the frames that the data manager fetched for each
  monitored pair given as input: a signal is appended to the list that goes to the alerts
  only when it passes the validation; at most twenty pairs are looked at per cycle. The
  reference trend is the one computed from the reference pair at the start of the cycle.
\<close>

definition analyze_market ::
    "ta_lib \<Rightarrow> string \<Rightarrow> (string \<times> dataframe \<times> dataframe) list \<Rightarrow> (string \<times> signal) list" where
  "analyze_market ta btc_trend market =
     fold (\<lambda>(symbol, data_1m, data_5m) signals_found.
             if rows data_1m = [] \<or> rows data_5m = [] then signals_found
             else let sg = snd (check_entry_conditions ta data_1m data_5m btc_trend)
                  in if has_signal sg \<and> validate_signal_quality sg
                     then signals_found @ [(symbol, sg)]
                     else signals_found)
          (take 20 market) []"

section \<open>Exit condition evaluator (exit_manager.py)\<close>

text \<open>The position dictionary; \<open>None\<close> is a missing key, read with the source's defaults.\<close>

record position =
  entry_price :: "real option"
  position_direction :: "string option"
  position_levels :: "(string \<times> real) list option"

definition entry_price_of :: "position \<Rightarrow> real" where
  "entry_price_of p = (case entry_price p of None \<Rightarrow> 0 | Some e \<Rightarrow> e)"

definition direction_of :: "position \<Rightarrow> string" where
  "direction_of p = upper (case position_direction p of None \<Rightarrow> [] | Some d \<Rightarrow> d)"

definition levels_of :: "position \<Rightarrow> (string \<times> real) list" where
  "levels_of p = (case position_levels p of None \<Rightarrow> [] | Some l \<Rightarrow> l)"

datatype reversal_signal =
    ObvDivergent string | BearishPattern string | BullishPattern string
  | RsiOverbought pyfloat | RsiOversold pyfloat | Trend5mBearish | Trend5mBullish

datatype exit_reason =
    FibonacciReached string | AtrStopHit real | PrevLowBroken real | PrevHighBroken real
  | EmaCrossBearish | EmaCrossBullish | RsiExtremeLow pyfloat | RsiExtremeHigh pyfloat
  | ReversalDetected "reversal_signal list" | TrailingStopHit real

record stop_check =
  should_stop :: bool
  stop_reason :: "exit_reason option"

definition no_stop :: stop_check where
  "no_stop = \<lparr>should_stop = False, stop_reason = None\<rparr>"

definition stop_with :: "exit_reason \<Rightarrow> stop_check" where
  "stop_with r = \<lparr>should_stop = True, stop_reason = Some r\<rparr>"

text \<open>\<open>_check_fibonacci_levels\<close>: \<open>level_price and ...\<close> skips a missing and a zero level.\<close>

definition level_reached :: "string \<Rightarrow> (string \<times> real) list \<Rightarrow> real \<Rightarrow> string \<Rightarrow> bool" where
  "level_reached dir levels cur_price level_name =
     (case map_of levels level_name of
        None \<Rightarrow> False
      | Some level_price \<Rightarrow>
          level_price \<noteq> 0
          \<and> (if dir = ''LONG'' then cur_price \<ge> level_price
              else cur_price \<le> level_price))"

definition check_fibonacci_levels :: "position \<Rightarrow> real \<Rightarrow> string option" where
  "check_fibonacci_levels position_data cur_price =
     (let fibonacci_levels = levels_of position_data;
          dir = direction_of position_data
      in if fibonacci_levels = [] then None
         else if dir = ''LONG'' \<or> dir = ''SHORT''
         then List.find (level_reached dir fibonacci_levels cur_price)
                [''TP1'', ''TP2'', ''TP3'']
         else None)"

text \<open>The four rules of \<open>_check_dynamic_stop_loss\<close>, in the source's order.\<close>

definition atr_rule :: "string \<Rightarrow> real \<Rightarrow> real option \<Rightarrow> bool" where
  "atr_rule dir cur_price atr_stop =
     (case atr_stop of
        None \<Rightarrow> False
      | Some a \<Rightarrow> a \<noteq> 0 \<and> ((dir = ''LONG'' \<and> cur_price \<le> a)
                            \<or> (dir = ''SHORT'' \<and> cur_price \<ge> a)))"

definition prev_candle_rule :: "string \<Rightarrow> real \<Rightarrow> candle \<Rightarrow> exit_reason option" where
  "prev_candle_rule dir cur_price prev_candle =
     (if dir = ''LONG'' \<and> cur_price \<le> low prev_candle
      then Some (PrevLowBroken (low prev_candle))
      else if dir = ''SHORT'' \<and> cur_price \<ge> high prev_candle
      then Some (PrevHighBroken (high prev_candle))
      else None)"

definition ema_cross_rule :: "ta_lib \<Rightarrow> string \<Rightarrow> dataframe \<Rightarrow> exit_reason option" where
  "ema_cross_rule ta dir df_5m =
     (if df_len df_5m \<ge> 50
      then let ema20 = calculate_ema ta df_5m 20; ema50 = calculate_ema ta df_5m 50
           in if ema20 \<noteq> [] \<and> ema50 \<noteq> []
              then let current_ema_20 = last ema20;
                       current_ema_50 = last ema50;
                       prev_ema_20 = (if length ema20 \<ge> 2 then ema20 ! (length ema20 - 2)
                                      else current_ema_20);
                       prev_ema_50 = (if length ema50 \<ge> 2 then ema50 ! (length ema50 - 2)
                                      else current_ema_50)
                   in if dir = ''LONG''
                      then (if float_lt prev_ema_50 prev_ema_20
                               \<and> float_lt current_ema_20 current_ema_50
                            then Some EmaCrossBearish else None)
                      else if dir = ''SHORT''
                      then (if float_lt prev_ema_20 prev_ema_50
                               \<and> float_lt current_ema_50 current_ema_20
                            then Some EmaCrossBullish else None)
                      else None
              else None
      else None)"

definition rsi_extreme_rule :: "ta_lib \<Rightarrow> string \<Rightarrow> dataframe \<Rightarrow> exit_reason option" where
  "rsi_extreme_rule ta dir df_1m =
     (let rsi = calculate_rsi ta df_1m 14
      in if rsi \<noteq> []
         then let current_rsi = last rsi
              in if dir = ''LONG'' \<and> float_lt current_rsi (Fin 20)
                 then Some (RsiExtremeLow current_rsi)
                 else if dir = ''SHORT'' \<and> float_lt (Fin 80) current_rsi
                 then Some (RsiExtremeHigh current_rsi)
                 else None
         else None)"

text \<open>
  \<open>_check_dynamic_stop_loss\<close>: an IndexError (\<open>iloc[-1]\<close> on an empty frame, \<open>iloc[-2]\<close>
  on a frame of one row) is caught and answers "no stop"; the frame keeps the columns that
  the ATR helper wrote before.
\<close>

definition check_dynamic_stop_loss ::
    "ta_lib \<Rightarrow> position \<Rightarrow> dataframe \<Rightarrow> dataframe \<Rightarrow> dataframe \<times> stop_check" where
  "check_dynamic_stop_loss ta position_data df_1m df_5m =
     (let dir = direction_of position_data
      in case iloc_last (col close df_1m) of
           None \<Rightarrow> (df_1m, no_stop)
         | Some cur_price \<Rightarrow>
             (let (df', atr_stop) = calculate_atr_stop_loss df_1m 14 2.0 (lower dir)
              in if atr_rule dir cur_price atr_stop
                 then (df', stop_with (AtrStopHit (the atr_stop)))
                 else (case iloc_prev (rows df') of
                         None \<Rightarrow> (df', no_stop)
                       | Some prev_candle \<Rightarrow>
                           (case prev_candle_rule dir cur_price prev_candle of
                              Some r \<Rightarrow> (df', stop_with r)
                            | None \<Rightarrow>
                                (case ema_cross_rule ta dir df_5m of
                                   Some r \<Rightarrow> (df', stop_with r)
                                 | None \<Rightarrow>
                                     (case rsi_extreme_rule ta dir df' of
                                        Some r \<Rightarrow> (df', stop_with r)
                                      | None \<Rightarrow> (df', no_stop)))))))"

text \<open>\<open>_check_trend_reversal\<close>: four independent votes, exit on two or more.\<close>

record reversal_check =
  reversal_exit :: bool
  reversal_reason :: "exit_reason option"
  reversal_signals :: "(int \<times> reversal_signal list) option"

definition obv_vote :: "string \<Rightarrow> analysis \<Rightarrow> reversal_signal list" where
  "obv_vote dir analysis_1m =
     (case obv_trend analysis_1m of
        None \<Rightarrow> []
      | Some t \<Rightarrow>
          if t = [] then []
          else if dir = ''LONG'' \<and> t = ''falling'' then [ObvDivergent ''falling'']
          else if dir = ''SHORT'' \<and> t = ''rising'' then [ObvDivergent ''rising'']
          else [])"

definition pattern_vote :: "string \<Rightarrow> analysis \<Rightarrow> reversal_signal list" where
  "pattern_vote dir analysis_1m =
     (if dir = ''LONG''
      then (case first_pattern (patterns_of analysis_1m) bearish_patterns of
              None \<Rightarrow> [] | Some p \<Rightarrow> [BearishPattern p])
      else if dir = ''SHORT''
      then (case first_pattern (patterns_of analysis_1m) bullish_patterns of
              None \<Rightarrow> [] | Some p \<Rightarrow> [BullishPattern p])
      else [])"

definition rsi_vote :: "string \<Rightarrow> analysis \<Rightarrow> reversal_signal list" where
  "rsi_vote dir analysis_1m =
     (case rsi_14 analysis_1m of
        None \<Rightarrow> []
      | Some r \<Rightarrow>
          if \<not> truthy r then []
          else if dir = ''LONG'' \<and> float_lt (Fin 75) r then [RsiOverbought r]
          else if dir = ''SHORT'' \<and> float_lt r (Fin 25) then [RsiOversold r]
          else [])"

definition trend_vote :: "string \<Rightarrow> analysis \<Rightarrow> reversal_signal list" where
  "trend_vote dir analysis_5m =
     (case trend analysis_5m of
        None \<Rightarrow> []
      | Some t \<Rightarrow>
          if t = [] then []
          else if dir = ''LONG'' \<and> t = ''bearish'' then [Trend5mBearish]
          else if dir = ''SHORT'' \<and> t = ''bullish'' then [Trend5mBullish]
          else [])"

definition check_trend_reversal ::
    "ta_lib \<Rightarrow> position \<Rightarrow> dataframe \<Rightarrow> dataframe \<Rightarrow> reversal_check" where
  "check_trend_reversal ta position_data df_1m df_5m =
     (let dir = direction_of position_data;
          analysis_1m = get_comprehensive_analysis ta df_1m;
          analysis_5m = get_comprehensive_analysis ta df_5m;
          signals_detected = obv_vote dir analysis_1m @ pattern_vote dir analysis_1m
                             @ rsi_vote dir analysis_1m @ trend_vote dir analysis_5m;
          reversal_count = int (length signals_detected)
      in if reversal_count \<ge> 2
         then \<lparr>reversal_exit = True,
               reversal_reason = Some (ReversalDetected signals_detected),
               reversal_signals = Some (reversal_count, signals_detected)\<rparr>
         else \<lparr>reversal_exit = False, reversal_reason = None, reversal_signals = None\<rparr>)"

text \<open>
  \<open>_check_trailing_stop\<close>. The profit is a numpy quotient: with a zero entry price (the
  default of a missing key) it is an infinity or \<open>NaN\<close>, not an exception. Every direction
  other than \<open>LONG\<close> takes the short formula; only \<open>LONG\<close> and \<open>SHORT\<close> have a trailing level.
\<close>

definition profit_pct :: "string \<Rightarrow> real \<Rightarrow> real \<Rightarrow> pyfloat" where
  "profit_pct dir entry cur_price =
     (if dir = ''LONG'' then np_times (np_div (cur_price - entry) entry) 100
      else np_times (np_div (entry - cur_price) entry) 100)"

definition check_trailing_stop :: "position \<Rightarrow> dataframe \<Rightarrow> stop_check" where
  "check_trailing_stop position_data df_1m =
     (let dir = direction_of position_data;
          entry = entry_price_of position_data
      in case iloc_last (col close df_1m) of
           None \<Rightarrow> no_stop
         | Some cur_price \<Rightarrow>
             if float_le (profit_pct dir entry cur_price) (Fin 1) then no_stop
             else let lookback_period = min 10 (df_len df_1m);
                      recent_low = tail lookback_period (col low df_1m);
                      recent_high = tail lookback_period (col high df_1m)
                  in if dir = ''LONG''
                     then (let trailing_level = series_max recent_low * 0.995
                           in if cur_price \<le> trailing_level
                              then stop_with (TrailingStopHit trailing_level) else no_stop)
                     else if dir = ''SHORT''
                     then (let trailing_level = series_min recent_high * 1.005
                           in if cur_price \<ge> trailing_level
                              then stop_with (TrailingStopHit trailing_level) else no_stop)
                     else no_stop)"

record exit_analysis =
  should_exit :: bool
  exit_reason :: "exit_reason option"
  exit_type :: "string option"
  suggested_exit_price :: "real option"
  profit_loss_pct :: pyfloat
  fibonacci_hit :: "string option"
  technical_signals :: "(int \<times> reversal_signal list) option"

definition initial_exit_analysis :: exit_analysis where
  "initial_exit_analysis =
     \<lparr>should_exit = False, exit_reason = None, exit_type = None, suggested_exit_price = None,
      profit_loss_pct = Fin 0, fibonacci_hit = None, technical_signals = None\<rparr>"

text \<open>\<open>analyze_exit_conditions\<close>; the frame returned is the one-minute frame as the call
  leaves it.\<close>

definition analyze_exit_conditions ::
    "ta_lib \<Rightarrow> string \<Rightarrow> position \<Rightarrow> dataframe \<Rightarrow> dataframe \<Rightarrow> dataframe \<times> exit_analysis" where
  "analyze_exit_conditions ta symbol position_data market_data_1m market_data_5m =
     (if rows market_data_1m = [] \<or> rows market_data_5m = []
      then (market_data_1m, initial_exit_analysis)
      else let cur_price = last (col close market_data_1m);
               entry = entry_price_of position_data;
               dir = direction_of position_data
           in if entry = 0 \<or> dir = [] then (market_data_1m, initial_exit_analysis)
              else let ea = initial_exit_analysis
                              \<lparr>profit_loss_pct := profit_pct dir entry cur_price,
                               suggested_exit_price := Some cur_price\<rparr>
                   in case check_fibonacci_levels position_data cur_price of
                        Some fib_hit \<Rightarrow>
                          (market_data_1m,
                           ea\<lparr>should_exit := True, exit_type := Some ''take_profit'',
                              exit_reason := Some (FibonacciReached fib_hit),
                              fibonacci_hit := Some fib_hit\<rparr>)
                      | None \<Rightarrow>
                          (let (df', stop_loss_hit) =
                                 check_dynamic_stop_loss ta position_data market_data_1m
                                   market_data_5m
                           in if should_stop stop_loss_hit
                              then (df', ea\<lparr>should_exit := True, exit_type := Some ''stop_loss'',
                                             exit_reason := stop_reason stop_loss_hit\<rparr>)
                              else let reversal_signal =
                                         check_trend_reversal ta position_data df' market_data_5m
                                   in if reversal_exit reversal_signal
                                      then (df', ea\<lparr>should_exit := True,
                                                     exit_type := Some ''reversal'',
                                                     exit_reason := reversal_reason reversal_signal,
                                                     technical_signals :=
                                                       reversal_signals reversal_signal\<rparr>)
                                      else let trailing_stop = check_trailing_stop position_data df'
                                           in if should_stop trailing_stop
                                              then (df', ea\<lparr>should_exit := True,
                                                             exit_type := Some ''trailing_stop'',
                                                             exit_reason := stop_reason trailing_stop\<rparr>)
                                              else (df', ea)))"

section \<open>Notions of the specification\<close>

text \<open>
  The mirror transformation of the specification's symmetry property: prices are reflected
  around a pivot, an RSI value is complemented from 100, trends and the OBV direction are
  flipped, each bullish pattern is exchanged with its bearish counterpart, and support and
  resistance change places.
\<close>

definition mirror_trend :: "string \<Rightarrow> string" where
  "mirror_trend t =
     (if t = ''bullish'' then ''bearish'' else if t = ''bearish'' then ''bullish'' else t)"

definition mirror_obv_trend :: "string \<Rightarrow> string" where
  "mirror_obv_trend t =
     (if t = ''rising'' then ''falling'' else if t = ''falling'' then ''rising'' else t)"

fun mirror_rsi :: "pyfloat \<Rightarrow> pyfloat" where
  "mirror_rsi (Fin r) = Fin (100 - r)"
| "mirror_rsi PInf = NInf"
| "mirror_rsi NInf = PInf"
| "mirror_rsi NaN = NaN"

definition mirror_price :: "real \<Rightarrow> real \<Rightarrow> real" where
  "mirror_price pivot p = 2 * pivot - p"

fun mirror_level :: "real \<Rightarrow> pyfloat \<Rightarrow> pyfloat" where
  "mirror_level pivot (Fin r) = Fin (mirror_price pivot r)"
| "mirror_level pivot PInf = NInf"
| "mirror_level pivot NInf = PInf"
| "mirror_level pivot NaN = NaN"

definition mirror_pattern_name :: "string \<Rightarrow> string" where
  "mirror_pattern_name n =
     (if n = ''hammer'' then ''inverted_hammer''
      else if n = ''inverted_hammer'' then ''hammer''
      else if n = ''bullish_engulfing'' then ''bearish_engulfing''
      else if n = ''bearish_engulfing'' then ''bullish_engulfing''
      else if n = ''bullish_pinbar'' then ''bearish_pinbar''
      else if n = ''bearish_pinbar'' then ''bullish_pinbar''
      else n)"

definition mirror_patterns :: "(string \<times> bool) list \<Rightarrow> (string \<times> bool) list" where
  "mirror_patterns ps = map (\<lambda>(n, b). (mirror_pattern_name n, b)) ps"

definition mirror_analysis :: "real \<Rightarrow> analysis \<Rightarrow> analysis" where
  "mirror_analysis pivot a =
     a\<lparr>rsi_7 := map_option mirror_rsi (rsi_7 a),
       rsi_14 := map_option mirror_rsi (rsi_14 a),
       ema_20 := map_option (mirror_level pivot) (ema_20 a),
       ema_50 := map_option (mirror_level pivot) (ema_50 a),
       obv_trend := map_option mirror_obv_trend (obv_trend a),
       trend := map_option mirror_trend (trend a),
       candlestick_patterns := map_option mirror_patterns (candlestick_patterns a),
       support := map_option (mirror_price pivot) (resistance a),
       resistance := map_option (mirror_price pivot) (support a),
       current_price := map_option (mirror_price pivot) (current_price a)\<rparr>"

text \<open>The point that the price-proximity rule contributes to a score.\<close>

definition proximity_point :: "bool \<Rightarrow> int" where
  "proximity_point near = (if near then 1 else 0)"

text \<open>
  Well-formedness of a candle series as the specification has it: timestamps strictly
  increasing, and in every bar the high at least the open, the close and the low, the low at
  most the open, the close and the high. A series is malformed when either fails.
\<close>

definition ohlc_invariant :: "candle \<Rightarrow> bool" where
  "ohlc_invariant c =
     (high c \<ge> max (max (opn c) (close c)) (low c)
      \<and> low c \<le> min (min (opn c) (close c)) (high c))"

definition malformed_series :: "dataframe \<Rightarrow> bool" where
  "malformed_series df =
     (\<not> sorted_wrt (<) (map timestamp (rows df)) \<or> \<not> list_all ohlc_invariant (rows df))"

text \<open>The bars of a frame with their timestamps erased, and the frame that holds only these.\<close>

definition unstamped :: "dataframe \<Rightarrow> candle list" where
  "unstamped df = map (\<lambda>c. c\<lparr>timestamp := 0\<rparr>) (rows df)"

definition plain :: "dataframe \<Rightarrow> dataframe" where
  "plain df = \<lparr>rows = unstamped df, extra = []\<rparr>"

text \<open>
  "The current price has reached a stored Fibonacci level", in the words of the exit
  evaluator's first rule: one of TP1, TP2, TP3 is stored, is not zero, and the price is at
  or above it for a long position, at or below it for a short one.
\<close>

definition fibonacci_level_reached :: "position \<Rightarrow> real \<Rightarrow> bool" where
  "fibonacci_level_reached p cur_price =
     list_ex (\<lambda>name. case map_of (levels_of p) name of
                        None \<Rightarrow> False
                      | Some level \<Rightarrow>
                          level \<noteq> 0
                          \<and> ((direction_of p = ''LONG'' \<and> cur_price \<ge> level)
                              \<or> (direction_of p = ''SHORT'' \<and> cur_price \<le> level)))
       [''TP1'', ''TP2'', ''TP3'']"

text \<open>
  A position opened from a signal of the entry scorer: its stored levels are the ones that
  \<open>calculate_fibonacci_levels\<close> computes for its direction from a high and a low with
  \<open>0 < low \<le> high\<close>. And "the price has reached a stored level" for any entry of the stored
  map, whatever its name.
\<close>

definition scorer_position :: "position \<Rightarrow> real \<Rightarrow> real \<Rightarrow> bool" where
  "scorer_position p hi lo =
     (0 < lo \<and> lo \<le> hi
      \<and> ((direction_of p = ''LONG'' \<and> levels_of p = calculate_fibonacci_levels hi lo ''long'')
          \<or> (direction_of p = ''SHORT''
              \<and> levels_of p = calculate_fibonacci_levels hi lo ''short'')))"

definition any_stored_level_reached :: "position \<Rightarrow> real \<Rightarrow> bool" where
  "any_stored_level_reached p cur_price =
     list_ex (\<lambda>(name, level). (direction_of p = ''LONG'' \<and> cur_price \<ge> level)
                              \<or> (direction_of p = ''SHORT'' \<and> cur_price \<le> level))
       (levels_of p)"

text \<open>The four working columns of the ATR stop-loss helper.\<close>

definition atr_columns :: "string set" where
  "atr_columns = {''high_low'', ''high_close'', ''low_close'', ''true_range''}"

section \<open>Sample inputs\<close>

text \<open>
  Two snapshots on which every long rule fires: the reference trend is bullish, both RSI
  values of the one-minute snapshot are oversold, the five-minute trend is bullish, the OBV
  rises, the volume spikes, the last bar is a hammer, and the price is within 2% of the
  five-minute support.
\<close>

definition all_rules_1m :: analysis where
  "all_rules_1m =
     empty_analysis\<lparr>rsi_7 := Some (Fin 20), rsi_14 := Some (Fin 25),
                    obv_trend := Some ''rising'', volume_spike := Some True,
                    candlestick_patterns :=
                      Some [(''doji'', False), (''hammer'', True), (''inverted_hammer'', False),
                            (''bullish_engulfing'', False), (''bearish_engulfing'', False),
                            (''bullish_pinbar'', False), (''bearish_pinbar'', False)],
                    trend := Some ''bearish'',
                    support := Some 99, resistance := Some 104,
                    current_price := Some 100, current_volume := Some 900\<rparr>"

definition all_rules_5m :: analysis where
  "all_rules_5m =
     empty_analysis\<lparr>rsi_7 := Some (Fin 55), rsi_14 := Some (Fin 52),
                    obv_trend := Some ''falling'', volume_spike := Some False,
                    candlestick_patterns := Some [],
                    trend := Some ''bullish'',
                    support := Some 99, resistance := Some 110,
                    current_price := Some 100, current_volume := Some 4000\<rparr>"

definition no_frame :: dataframe where
  "no_frame = \<lparr>rows = [], extra = []\<rparr>"

text \<open>A snapshot that carries nothing but a price of 103 over a support of 100, and one that
  carries nothing but an RSI of exactly zero.\<close>

definition price_only_1m :: analysis where
  "price_only_1m = empty_analysis\<lparr>current_price := Some 103\<rparr>"

definition support_only_5m :: analysis where
  "support_only_5m = empty_analysis\<lparr>support := Some 100\<rparr>"

definition rsi_zero_1m :: analysis where
  "rsi_zero_1m = empty_analysis\<lparr>rsi_7 := Some (Fin 0), rsi_14 := Some (Fin 0)\<rparr>"

definition rsi_hundred_1m :: analysis where
  "rsi_hundred_1m = empty_analysis\<lparr>rsi_7 := Some (Fin 100), rsi_14 := Some (Fin 100)\<rparr>"

text \<open>The two signals of the repository's test of the validation, and a long position entered at
  100 with ten one-minute bars whose lows stand at 105 while the last close is 100.5.\<close>

definition test_signal :: "int \<Rightarrow> signal" where
  "test_signal k =
     initial_signal\<lparr>has_signal := True, strength := k, price := Some (Fin 50000),
                    stop_loss := Some (Fin 49000),
                    fibonacci_levels :=
                      [(''TP1'', Fin 51000), (''TP2'', Fin 52000), (''TP3'', Fin 53000)]\<rparr>"

definition long_at_100 :: position where
  "long_at_100 =
     \<lparr>entry_price = Some 100, position_direction = Some ''long'',
      position_levels = Some [(''TP1'', 110), (''TP2'', 120), (''TP3'', 130)]\<rparr>"

definition bar :: "int \<Rightarrow> real \<Rightarrow> real \<Rightarrow> real \<Rightarrow> real \<Rightarrow> real \<Rightarrow> candle" where
  "bar t o' h l c v = \<lparr>timestamp = t, opn = o', high = h, low = l, close = c, volume = v\<rparr>"

definition pullback_frame :: dataframe where
  "pullback_frame =
     \<lparr>rows = map (\<lambda>i. bar (60 * int i) 106 107 105 106 10) [0 ..< 9]
             @ [bar 540 106 106 100.5 100.5 10],
      extra = []\<rparr>"

text \<open>
  Two frames of fifty bars. The one-minute frame falls by one a bar for forty-nine bars and
  ends on a hammer with three times the usual volume; the five-minute frame rises by a
  tenth a bar. The sample indicator library answers an RSI of 20, a fast average (154)
  above the slow one (152), a rising OBV and an ATR of 1 for whatever columns it is given.
\<close>

definition falling_frame :: dataframe where
  "falling_frame =
     \<lparr>rows = map (\<lambda>i. bar (60 * int i) (201 - real i) (201 - real i) (200 - real i)
                         (200 - real i) 100) [0 ..< 49]
             @ [bar 2940 152.4 152.5 152 152.5 300],
      extra = []\<rparr>"

definition rising_frame :: dataframe where
  "rising_frame =
     \<lparr>rows = map (\<lambda>i. bar (300 * int i) (150 + real i / 10 - 0.1) (150 + real i / 10)
                         (150 + real i / 10 - 0.1) (150 + real i / 10) 500) [0 ..< 50],
      extra = []\<rparr>"

definition sample_ta :: ta_lib where
  "sample_ta =
     \<lparr>ta_rsi = (\<lambda>closes period. Some (map (\<lambda>_. Fin 20) closes)),
      ta_ema = (\<lambda>closes period. Some (map (\<lambda>_. Fin (if period = 20 then 154 else 152)) closes)),
      ta_obv = (\<lambda>closes volumes. Some (map (\<lambda>i. Fin (real i)) [0 ..< length closes])),
      ta_atr = (\<lambda>highs lows closes period. Some (map (\<lambda>_. Fin 1) closes))\<rparr>"

text \<open>Three bars whose timestamps do not increase and whose last bar closes above its high.\<close>

definition inconsistent_frame :: dataframe where
  "inconsistent_frame =
     \<lparr>rows = [bar 120 100 101 99 100 10, bar 60 100 101 99 100 10, bar 60 100 100.2 99 100.5 10],
      extra = []\<rparr>"

text \<open>Fourteen flat bars at 100, and a long position with its first target at a given level,
  with or without an entry price.\<close>

definition flat_frame :: dataframe where
  "flat_frame = \<lparr>rows = map (\<lambda>i. bar (60 * int i) 100 100 100 100 10) [0 ..< 14], extra = []\<rparr>"

definition flat_long :: "real option \<Rightarrow> real \<Rightarrow> position" where
  "flat_long entry tp1 =
     \<lparr>entry_price = entry, position_direction = Some ''long'',
      position_levels = Some [(''TP1'', tp1), (''TP2'', tp1 + 5), (''TP3'', tp1 + 10)]\<rparr>"

text \<open>A long position entered at 95 with the levels computed from a high of 100 and a low
  of 90.\<close>

definition scorer_long :: position where
  "scorer_long =
     \<lparr>entry_price = Some 95, position_direction = Some ''long'',
      position_levels = Some (calculate_fibonacci_levels 100 90 ''long'')\<rparr>"

section \<open>Upper and lower case of the direction names\<close>

lemma lower_long: "lower ''long'' = ''long''"
  by (simp add: lower_def lower_char_def)

lemma lower_short: "lower ''short'' = ''short''"
  by (simp add: lower_def lower_char_def)

lemma upper_long: "upper ''long'' = ''LONG''"
  by code_simp

lemma upper_short: "upper ''short'' = ''SHORT''"
  by code_simp

lemma lower_LONG: "lower ''LONG'' = ''long''"
  by code_simp

lemma lower_SHORT: "lower ''SHORT'' = ''short''"
  by code_simp

section \<open>Properties of the entry scorer\<close>

subsection \<open>The score as a sum of rule hits\<close>

lemma score_award: "score (award c r x) = score x + (if c then 1 else 0)"
  by (simp add: award_def)

lemma score_award_pattern: "score (award_pattern f x) = score x + (if f = None then 0 else 1)"
  by (cases f) (simp_all add: award_pattern_def award_def)

lemma score_long:
  "score (check_long_conditions a1 a5 btc) =
     (if btc = ''bullish'' then 1 else 0)
   + (if rsi_below (rsi_7 a1) RSI_OVERSOLD then 1 else 0)
   + (if rsi_below (rsi_14 a1) RSI_OVERSOLD then 1 else 0)
   + (if trend a5 = Some ''bullish'' then 1 else 0)
   + (if obv_trend a1 = Some ''rising'' then 1 else 0)
   + (if volume_spike a1 = Some True then 1 else 0)
   + (if first_pattern (patterns_of a1) bullish_patterns = None then 0 else 1)
   + (if price_near_support a1 a5 then 1 else 0)"
  unfolding check_long_conditions_def Let_def score_award score_award_pattern by simp

lemma score_short:
  "score (check_short_conditions a1 a5 btc) =
     (if btc = ''bearish'' then 1 else 0)
   + (if rsi_above (rsi_7 a1) RSI_OVERBOUGHT then 1 else 0)
   + (if rsi_above (rsi_14 a1) RSI_OVERBOUGHT then 1 else 0)
   + (if trend a5 = Some ''bearish'' then 1 else 0)
   + (if obv_trend a1 = Some ''falling'' then 1 else 0)
   + (if volume_spike a1 = Some True then 1 else 0)
   + (if first_pattern (patterns_of a1) bearish_patterns = None then 0 else 1)
   + (if price_near_resistance a1 a5 then 1 else 0)"
  unfolding check_short_conditions_def Let_def score_award score_award_pattern by simp

lemma score_long_range:
  "0 \<le> score (check_long_conditions a1 a5 btc) \<and> score (check_long_conditions a1 a5 btc) \<le> 8"
  unfolding score_long by simp

lemma score_short_range:
  "0 \<le> score (check_short_conditions a1 a5 btc) \<and> score (check_short_conditions a1 a5 btc) \<le> 8"
  unfolding score_short by simp

lemma entry_decision_strength:
  "strength (snd (entry_decision a1 a5 btc df_1m df_5m)) =
     (let l = score (check_long_conditions a1 a5 btc);
          s = score (check_short_conditions a1 a5 btc)
      in if l > s \<and> l \<ge> 3 then l else if s > l \<and> s \<ge> 3 then s else 0)"
  by (auto simp: entry_decision_def Let_def initial_signal_def split: prod.splits)

lemmas sample_simps = all_rules_1m_def all_rules_5m_def empty_analysis_def
  price_only_1m_def support_only_5m_def rsi_zero_1m_def rsi_hundred_1m_def
  rsi_below_def rsi_above_def RSI_OVERSOLD_def RSI_OVERBOUGHT_def
  first_pattern_def patterns_of_def bullish_patterns_def bearish_patterns_def
  price_near_support_def price_near_resistance_def

lemma all_rules_long: "score (check_long_conditions all_rules_1m all_rules_5m ''bullish'') = 8"
  unfolding score_long by (simp add: sample_simps)

lemma all_rules_short: "score (check_short_conditions all_rules_1m all_rules_5m ''bullish'') = 1"
  unfolding score_short by (simp add: sample_simps)

lemma nothing_long: "score (check_long_conditions empty_analysis empty_analysis ''neutral'') = 0"
  unfolding score_long by (simp add: sample_simps)

lemma nothing_short: "score (check_short_conditions empty_analysis empty_analysis ''neutral'') = 0"
  unfolding score_short by (simp add: sample_simps)

subsection \<open>The sample frames, evaluated\<close>

text \<open>Unfolding \<open>[0 ..< n]\<close> for a numeral \<open>n\<close>; the simplifier continues from 2 by itself.\<close>

lemma upt_0_general:
  assumes "2 \<le> m"
  shows "[0 ..< m] = 0 # Suc 0 # [2 ..< m]"
proof -
  have "[0 ..< m] = 0 # [Suc 0 ..< m]"
    using assms by (intro upt_conv_Cons) simp
  also have "[Suc 0 ..< m] = Suc 0 # [Suc (Suc 0) ..< m]"
    using assms by (intro upt_conv_Cons) simp
  finally show ?thesis by (simp only: numeral_2_eq_2)
qed

lemma upt_0_numeral:
  "[0 ..< numeral (Num.Bit0 n)] = 0 # Suc 0 # [2 ..< numeral (Num.Bit0 n)]"
  "[0 ..< numeral (Num.Bit1 n)] = 0 # Suc 0 # [2 ..< numeral (Num.Bit1 n)]"
  by (rule upt_0_general, simp)+

lemma falling_len: "df_len falling_frame = 50"
  by (simp add: df_len_def falling_frame_def)

lemma rising_len: "df_len rising_frame = 50"
  by (simp add: df_len_def rising_frame_def)

lemma falling_patterns:
  "identify_candlestick_patterns falling_frame =
     [(''doji'', False), (''hammer'', True), (''inverted_hammer'', False),
      (''bullish_engulfing'', False), (''bearish_engulfing'', False),
      (''bullish_pinbar'', True), (''bearish_pinbar'', False)]"
  unfolding identify_candlestick_patterns_def falling_len
  by (simp add: falling_frame_def bar_def nth_append is_doji_def is_hammer_def is_inverted_hammer_def
      is_bullish_engulfing_def is_bearish_engulfing_def is_bullish_pinbar_def is_bearish_pinbar_def)

lemma falling_spike: "detect_volume_spike falling_frame 2.0 20"
  unfolding detect_volume_spike_def falling_len
  by (simp add: falling_frame_def bar_def col_def tail_def mean_def upt_0_numeral)


lemma rolling_windows_nonempty: "0 < w \<Longrightarrow> w \<le> length xs \<Longrightarrow> rolling_windows w xs \<noteq> []"
  by (simp add: rolling_windows_def)

lemma last_rolling_windows:
  assumes "0 < w" and "w \<le> length xs"
  shows "last (map g (rolling_windows w xs)) = g (tail w xs)"
proof -
  have "rolling_windows w xs = map (\<lambda>k. take w (drop k xs)) [0 ..< Suc (length xs - w)]"
    using assms by (simp add: rolling_windows_def)
  then have "last (map g (rolling_windows w xs)) = g (take w (drop (length xs - w) xs))"
    by (simp add: last_map)
  then show ?thesis using assms by (simp add: tail_def)
qed

lemma support_resistance_tail:
  assumes "0 < w" and "w \<le> df_len df"
  shows "calculate_support_resistance df w
           = (Some (series_min (tail w (col low df))), Some (series_max (tail w (col high df))))"
  using assms
  by (simp add: calculate_support_resistance_def Let_def df_len_def col_def
        last_rolling_windows rolling_windows_nonempty)

lemma rising_sr: "calculate_support_resistance rising_frame 20 = (Some 152.9, Some 154.9)"
  by (simp add: support_resistance_tail rising_len)
     (simp add: rising_frame_def bar_def col_def tail_def upt_0_numeral series_min_def series_max_def)

lemma falling_sr: "calculate_support_resistance falling_frame 20 = (Some 152, Some 171)"
  by (simp add: support_resistance_tail falling_len)
     (simp add: falling_frame_def bar_def col_def tail_def upt_0_numeral series_min_def series_max_def)

lemma sample_ta_series:
  "calculate_rsi sample_ta df p = map (\<lambda>_. Fin 20) (rows df)"
  "calculate_ema sample_ta df p = map (\<lambda>_. Fin (if p = 20 then 154 else 152)) (rows df)"
  "calculate_obv sample_ta df = map (\<lambda>i. Fin (real i)) [0 ..< df_len df]"
  "calculate_atr sample_ta df p = map (\<lambda>_. Fin 1) (rows df)"
  by (simp_all add: calculate_rsi_def calculate_ema_def calculate_obv_def calculate_atr_def
        sample_ta_def col_def df_len_def)

lemma falling_rows_nonempty: "rows falling_frame \<noteq> []" "rows rising_frame \<noteq> []"
  by (simp_all add: falling_frame_def rising_frame_def upt_0_numeral)

lemma sample_trend:
  "df_len df = 50 \<Longrightarrow> analyze_trend sample_ta df 20 50 = ''bullish''"
  by (auto simp: analyze_trend_def sample_ta_series iloc_last_def last_map df_len_def)

lemma falling_last: "last (rows falling_frame) = bar 2940 152.4 152.5 152 152.5 300"
  by (simp add: falling_frame_def)

lemma rising_last: "last (rows rising_frame) = bar 14700 154.8 154.9 154.8 154.9 500"
  by (simp add: rising_frame_def upt_0_numeral bar_def)

lemma falling_analysis:
  "get_comprehensive_analysis sample_ta falling_frame =
     \<lparr>rsi_7 = Some (Fin 20), rsi_14 = Some (Fin 20), ema_20 = Some (Fin 154),
      ema_50 = Some (Fin 152), obv = Some (Fin 49), obv_trend = Some ''rising'',
      atr = Some (Fin 1), trend = Some ''bullish'', volume_spike = Some True,
      candlestick_patterns =
        Some [(''doji'', False), (''hammer'', True), (''inverted_hammer'', False),
              (''bullish_engulfing'', False), (''bearish_engulfing'', False),
              (''bullish_pinbar'', True), (''bearish_pinbar'', False)],
      support = Some 152, resistance = Some 171,
      current_price = Some 152.5, current_volume = Some 300\<rparr>"
  unfolding get_comprehensive_analysis_def analysis_body_def indicator_last_def Let_def
    sample_ta_series falling_len falling_patterns falling_sr sample_trend [OF falling_len]
  using falling_spike
  by (simp add: iloc_last_def col_def last_map falling_rows_nonempty falling_last bar_def)


lemma rising_patterns:
  "identify_candlestick_patterns rising_frame =
     [(''doji'', False), (''hammer'', False), (''inverted_hammer'', False),
      (''bullish_engulfing'', False), (''bearish_engulfing'', False),
      (''bullish_pinbar'', False), (''bearish_pinbar'', False)]"
  unfolding identify_candlestick_patterns_def rising_len
  by (simp add: rising_frame_def bar_def upt_0_numeral is_doji_def is_hammer_def is_inverted_hammer_def
      is_bullish_engulfing_def is_bearish_engulfing_def is_bullish_pinbar_def is_bearish_pinbar_def)

lemma rising_spike: "\<not> detect_volume_spike rising_frame 2.0 20"
  unfolding detect_volume_spike_def rising_len
  by (simp add: rising_frame_def bar_def col_def tail_def mean_def upt_0_numeral)

lemma rising_analysis:
  "get_comprehensive_analysis sample_ta rising_frame =
     \<lparr>rsi_7 = Some (Fin 20), rsi_14 = Some (Fin 20), ema_20 = Some (Fin 154),
      ema_50 = Some (Fin 152), obv = Some (Fin 49), obv_trend = Some ''rising'',
      atr = Some (Fin 1), trend = Some ''bullish'', volume_spike = Some False,
      candlestick_patterns =
        Some [(''doji'', False), (''hammer'', False), (''inverted_hammer'', False),
              (''bullish_engulfing'', False), (''bearish_engulfing'', False),
              (''bullish_pinbar'', False), (''bearish_pinbar'', False)],
      support = Some 152.9, resistance = Some 154.9,
      current_price = Some 154.9, current_volume = Some 500\<rparr>"
  unfolding get_comprehensive_analysis_def analysis_body_def indicator_last_def Let_def
    sample_ta_series rising_len rising_patterns rising_sr sample_trend [OF rising_len]
  using rising_spike
  by (simp add: iloc_last_def col_def last_map falling_rows_nonempty rising_last bar_def)

lemma falling_true_range_tail:
  "tail 14 (true_range_col falling_frame) =
     [Fin 1, Fin 1, Fin 1, Fin 1, Fin 1, Fin 1, Fin 1, Fin 1, Fin 1, Fin 1, Fin 1, Fin 1, Fin 1,
      Fin 0.5]"
  by (simp add: true_range_col_def high_low_col_def high_close_col_def low_close_col_def
        shift1_def col_def falling_frame_def bar_def upt_0_numeral tail_def skipna_max_def
        List.map_filter_simps series_max_def)

lemma falling_stop:
  "snd (calculate_atr_stop_loss falling_frame 14 2.0 ''long'') = Some (1054 / 7)"
  unfolding calculate_atr_stop_loss_def Let_def falling_len rolling_mean_last_def
    falling_true_range_tail
  by (simp add: lower_long List.map_filter_simps mean_def col_def last_map falling_rows_nonempty
        falling_last bar_def)

lemma falling_columns:
  "map fst (extra (fst (calculate_atr_stop_loss falling_frame 14 m d)))
     = [''high_low'', ''high_close'', ''low_close'', ''true_range'']"
  unfolding calculate_atr_stop_loss_def Let_def falling_len
  by (simp add: set_column_def falling_frame_def)


lemma sample_long_score:
  "score (check_long_conditions (get_comprehensive_analysis sample_ta falling_frame)
            (get_comprehensive_analysis sample_ta rising_frame) ''bullish'') = 8"
  unfolding score_long falling_analysis rising_analysis
  by (simp add: rsi_below_def RSI_OVERSOLD_def first_pattern_def patterns_of_def
        bullish_patterns_def price_near_support_def)

lemma sample_short_score:
  "score (check_short_conditions (get_comprehensive_analysis sample_ta falling_frame)
            (get_comprehensive_analysis sample_ta rising_frame) ''bullish'') = 2"
  unfolding score_short falling_analysis rising_analysis
  by (simp add: rsi_above_def RSI_OVERBOUGHT_def first_pattern_def patterns_of_def
        bearish_patterns_def price_near_resistance_def)

lemma rising_extremes:
  "series_max (tail 20 (col high rising_frame)) = 154.9"
  "series_min (tail 20 (col low rising_frame)) = 152.9"
  by (simp_all add: rising_frame_def bar_def col_def tail_def upt_0_numeral series_min_def
        series_max_def)

lemma sample_entry:
  "check_entry_conditions sample_ta falling_frame rising_frame ''bullish'' =
     (fst (calculate_atr_stop_loss falling_frame 14 2.0 ''long''),
      \<lparr>has_signal = True, direction = Some ''LONG'', strength = 8,
       reasons = score_reasons (check_long_conditions
                   (get_comprehensive_analysis sample_ta falling_frame)
                   (get_comprehensive_analysis sample_ta rising_frame) ''bullish''),
       price = Some (Fin 152.5), signal_rsi_7 = Some (Fin 20), signal_rsi_14 = Some (Fin 20),
       signal_volume_spike = True,
       signal_patterns =
         [(''doji'', False), (''hammer'', True), (''inverted_hammer'', False),
          (''bullish_engulfing'', False), (''bearish_engulfing'', False),
          (''bullish_pinbar'', True), (''bearish_pinbar'', False)],
       fibonacci_levels = as_floats (calculate_fibonacci_levels 154.9 152.9 ''long''),
       stop_loss = Some (Fin (1054 / 7))\<rparr>)"
proof -
  have stop: "calculate_atr_stop_loss falling_frame 14 2.0 ''long''
                = (fst (calculate_atr_stop_loss falling_frame 14 2.0 ''long''), Some (1054 / 7))"
    using falling_stop by (simp add: prod_eq_iff)
  show ?thesis
    unfolding check_entry_conditions_def entry_decision_def Let_def falling_len rising_len
      sample_long_score sample_short_score rising_extremes
    apply (subst stop)
    apply (subst stop)
    apply (simp add: falling_analysis rising_analysis initial_signal_def patterns_of_def)
    done
qed
subsection \<open>Range of the strength\<close>

text \<open>
  Claim C1 says that the strength of the signal returned by \<open>check_entry_conditions\<close> is an
  integer between 0 and 7. The scorer has eight rules of one point each (the two RSI rules
  count separately), and nothing caps their sum: on the two sample snapshots, with a bullish
  reference trend, all eight fire and the signal's strength is 8, whatever the frames; and
  so it is for the two sample frames of fifty bars under the sample indicator library.
\<close>

theorem strength_eight_at_all_rules:
  "strength (snd (entry_decision all_rules_1m all_rules_5m ''bullish'' df_1m df_5m)) = 8
   \<and> has_signal (snd (entry_decision all_rules_1m all_rules_5m ''bullish'' df_1m df_5m))
   \<and> \<not> strength (snd (entry_decision all_rules_1m all_rules_5m ''bullish'' df_1m df_5m)) \<le> 7
   \<and> strength (snd (check_entry_conditions sample_ta falling_frame rising_frame ''bullish'')) = 8"
  by (auto simp: entry_decision_def Let_def initial_signal_def all_rules_long all_rules_short
        sample_entry split: prod.splits)

theorem strength_eight_at_all_rules_witness:
  "strength (snd (entry_decision all_rules_1m all_rules_5m ''bullish'' no_frame no_frame)) = 8
   \<and> 50 \<le> df_len falling_frame \<and> 50 \<le> df_len rising_frame
   \<and> strength (snd (check_entry_conditions sample_ta falling_frame rising_frame ''bullish'')) = 8"
  using strength_eight_at_all_rules [of no_frame no_frame]
  by (simp add: falling_len rising_len)

text \<open>What does hold of every signal: the strength lies between 0 and 8.\<close>

lemma strength_range:
  "0 \<le> strength (snd (entry_decision a1 a5 btc df_1m df_5m))
   \<and> strength (snd (entry_decision a1 a5 btc df_1m df_5m)) \<le> 8"
  using score_long_range [of a1 a5 btc] score_short_range [of a1 a5 btc]
  unfolding entry_decision_strength by (simp add: Let_def)

subsection \<open>When a signal is emitted\<close>

text \<open>
  Claim C3: a signal is emitted if and only if the larger of the long and the short score
  is at least 3 and the two scores differ; on a tie, at any value, there is no signal; the
  direction emitted is that of the strictly larger score, and the strength is that score.
  This is the decision of \<open>check_entry_conditions\<close> on the snapshots of its two windows,
  which it computes once both have at least fifty bars.
\<close>

theorem entry_signal_iff:
  "(has_signal (snd (entry_decision a1 a5 btc df_1m df_5m)) \<longleftrightarrow>
      3 \<le> max (score (check_long_conditions a1 a5 btc)) (score (check_short_conditions a1 a5 btc))
      \<and> score (check_long_conditions a1 a5 btc) \<noteq> score (check_short_conditions a1 a5 btc))
   \<and> (has_signal (snd (entry_decision a1 a5 btc df_1m df_5m)) \<longrightarrow>
        direction (snd (entry_decision a1 a5 btc df_1m df_5m)) =
          Some (if score (check_long_conditions a1 a5 btc) > score (check_short_conditions a1 a5 btc)
                then ''LONG'' else ''SHORT'')
        \<and> strength (snd (entry_decision a1 a5 btc df_1m df_5m)) =
            max (score (check_long_conditions a1 a5 btc)) (score (check_short_conditions a1 a5 btc)))
   \<and> (score (check_long_conditions a1 a5 btc) = score (check_short_conditions a1 a5 btc) \<longrightarrow>
        \<not> has_signal (snd (entry_decision a1 a5 btc df_1m df_5m)))
   \<and> (50 \<le> df_len df_1m \<and> 50 \<le> df_len df_5m \<longrightarrow>
        snd (check_entry_conditions ta df_1m df_5m btc) =
          snd (entry_decision (get_comprehensive_analysis ta df_1m)
                 (get_comprehensive_analysis ta df_5m) btc df_1m df_5m))"
  by (auto simp: entry_decision_def check_entry_conditions_def Let_def initial_signal_def
        split: prod.splits)

theorem entry_signal_iff_witness:
  "has_signal (snd (entry_decision all_rules_1m all_rules_5m ''bullish'' no_frame no_frame))
   \<and> direction (snd (entry_decision all_rules_1m all_rules_5m ''bullish'' no_frame no_frame))
       = Some ''LONG''
   \<and> score (check_long_conditions empty_analysis empty_analysis ''neutral'')
       = score (check_short_conditions empty_analysis empty_analysis ''neutral'')
   \<and> \<not> has_signal (snd (entry_decision empty_analysis empty_analysis ''neutral'' no_frame no_frame))
   \<and> 50 \<le> df_len falling_frame \<and> 50 \<le> df_len rising_frame
   \<and> has_signal (snd (entry_decision (get_comprehensive_analysis sample_ta falling_frame)
                        (get_comprehensive_analysis sample_ta rising_frame) ''bullish''
                        falling_frame rising_frame))"
  using entry_signal_iff [of all_rules_1m all_rules_5m "''bullish''" no_frame no_frame]
        entry_signal_iff [of empty_analysis empty_analysis "''neutral''" no_frame no_frame]
        entry_signal_iff [of "get_comprehensive_analysis sample_ta falling_frame"
          "get_comprehensive_analysis sample_ta rising_frame" "''bullish''" falling_frame
          rising_frame sample_ta]
  by (simp add: all_rules_long all_rules_short nothing_long nothing_short falling_len rising_len
        sample_long_score sample_short_score)

subsection \<open>An RSI of exactly zero\<close>

text \<open>
  Claim C10: an RSI rule awards its point only when the value is present and non-zero. With
  \<open>rsi_7\<close> (or \<open>rsi_14\<close>) equal to 0 the long rule does not fire, although 0 is below the
  oversold threshold: the long result is the one of a snapshot without that value. The
  short rule at an RSI of 100 does fire and adds its point. In general the two long RSI
  rules add one point for each value that is present, non-zero and below the threshold.
\<close>

theorem rsi_zero_is_absent:
  "(rsi_7 a1 = Some (Fin 0) \<longrightarrow>
      float_lt (Fin 0) (Fin RSI_OVERSOLD)
      \<and> check_long_conditions a1 a5 btc = check_long_conditions (a1\<lparr>rsi_7 := None\<rparr>) a5 btc)
   \<and> (rsi_14 a1 = Some (Fin 0) \<longrightarrow>
      check_long_conditions a1 a5 btc = check_long_conditions (a1\<lparr>rsi_14 := None\<rparr>) a5 btc)
   \<and> (rsi_7 a1 = Some (Fin 100) \<longrightarrow>
      score (check_short_conditions a1 a5 btc)
        = score (check_short_conditions (a1\<lparr>rsi_7 := None\<rparr>) a5 btc) + 1)
   \<and> (rsi_14 a1 = Some (Fin 100) \<longrightarrow>
      score (check_short_conditions a1 a5 btc)
        = score (check_short_conditions (a1\<lparr>rsi_14 := None\<rparr>) a5 btc) + 1)
   \<and> score (check_long_conditions a1 a5 btc)
        = score (check_long_conditions (a1\<lparr>rsi_7 := None, rsi_14 := None\<rparr>) a5 btc)
          + (case rsi_7 a1 of Some (Fin v) \<Rightarrow> if v \<noteq> 0 \<and> v < RSI_OVERSOLD then 1 else 0
             | Some NInf \<Rightarrow> 1 | _ \<Rightarrow> 0)
          + (case rsi_14 a1 of Some (Fin v) \<Rightarrow> if v \<noteq> 0 \<and> v < RSI_OVERSOLD then 1 else 0
             | Some NInf \<Rightarrow> 1 | _ \<Rightarrow> 0)"
  apply (intro conjI impI)
  subgoal by (simp add: RSI_OVERSOLD_def)
  subgoal by (simp add: check_long_conditions_def rsi_below_def award_def patterns_of_def
                price_near_support_def)
  subgoal by (simp add: check_long_conditions_def rsi_below_def award_def patterns_of_def
                price_near_support_def)
  subgoal unfolding score_short
    by (simp add: rsi_above_def RSI_OVERBOUGHT_def patterns_of_def price_near_resistance_def)
  subgoal unfolding score_short
    by (simp add: rsi_above_def RSI_OVERBOUGHT_def patterns_of_def price_near_resistance_def)
  subgoal unfolding score_long
    by (simp add: rsi_below_def patterns_of_def price_near_support_def
          split: option.splits pyfloat.splits)
  done

theorem rsi_zero_is_absent_witness:
  "rsi_7 rsi_zero_1m = Some (Fin 0) \<and> rsi_14 rsi_zero_1m = Some (Fin 0)
   \<and> score (check_long_conditions rsi_zero_1m empty_analysis ''neutral'') = 0
   \<and> rsi_7 rsi_hundred_1m = Some (Fin 100) \<and> rsi_14 rsi_hundred_1m = Some (Fin 100)
   \<and> score (check_short_conditions rsi_hundred_1m empty_analysis ''neutral'') = 2"
proof -
  have zero: "rsi_7 rsi_zero_1m = Some (Fin 0)" "rsi_14 rsi_zero_1m = Some (Fin 0)"
    by (simp_all add: rsi_zero_1m_def)
  have hundred: "rsi_7 rsi_hundred_1m = Some (Fin 100)" "rsi_14 rsi_hundred_1m = Some (Fin 100)"
    by (simp_all add: rsi_hundred_1m_def)
  have without: "rsi_zero_1m\<lparr>rsi_7 := None, rsi_14 := None\<rparr> = empty_analysis"
    "rsi_hundred_1m\<lparr>rsi_7 := None\<rparr> = empty_analysis\<lparr>rsi_14 := Some (Fin 100)\<rparr>"
    by (simp_all add: rsi_zero_1m_def rsi_hundred_1m_def empty_analysis_def)
  have rest: "score (check_short_conditions (empty_analysis\<lparr>rsi_14 := Some (Fin 100)\<rparr>)
                empty_analysis ''neutral'') = 1"
    unfolding score_short by (simp add: sample_simps)
  note long_sum =
    rsi_zero_is_absent [of rsi_zero_1m empty_analysis "''neutral''",
      THEN conjunct2, THEN conjunct2, THEN conjunct2, THEN conjunct2]
  note short_point =
    rsi_zero_is_absent [of rsi_hundred_1m empty_analysis "''neutral''",
      THEN conjunct2, THEN conjunct2, THEN conjunct1, rule_format, OF hundred(1)]
  have "score (check_long_conditions rsi_zero_1m empty_analysis ''neutral'') = 0"
    using long_sum by (simp add: zero without nothing_long)
  moreover
  have "score (check_short_conditions rsi_hundred_1m empty_analysis ''neutral'') = 2"
    using short_point by (simp add: without rest)
  ultimately show ?thesis by (simp add: zero hundred)
qed

subsection \<open>Mirror symmetry of the two scorers\<close>

lemma mirror_pattern_name_inj: "mirror_pattern_name a = mirror_pattern_name b \<Longrightarrow> a = b"
  unfolding mirror_pattern_name_def by (simp split: if_splits)

lemma map_of_mirror_patterns:
  "map_of (mirror_patterns ps) (mirror_pattern_name n) = map_of ps n"
  by (induction ps) (auto simp: mirror_patterns_def dest: mirror_pattern_name_inj)

lemma bearish_is_mirrored_bullish: "bearish_patterns = map mirror_pattern_name bullish_patterns"
  by (simp add: bearish_patterns_def bullish_patterns_def mirror_pattern_name_def)

lemma find_map_None: "(List.find P (map f xs) = None) = (List.find (P \<circ> f) xs = None)"
  by (induction xs) auto

lemma first_pattern_mirror:
  "(first_pattern (mirror_patterns ps) bearish_patterns = None)
     = (first_pattern ps bullish_patterns = None)"
  unfolding first_pattern_def bearish_is_mirrored_bullish find_map_None
  by (simp add: comp_def map_of_mirror_patterns)

lemma patterns_of_mirror: "patterns_of (mirror_analysis pivot a) = mirror_patterns (patterns_of a)"
  by (cases "candlestick_patterns a")
     (simp_all add: patterns_of_def mirror_analysis_def mirror_patterns_def)

lemma rsi_mirror:
  "r \<noteq> Some (Fin 0) \<Longrightarrow>
     rsi_above (map_option mirror_rsi r) RSI_OVERBOUGHT = rsi_below r RSI_OVERSOLD"
proof (cases r)
  case None
  then show ?thesis by (simp add: rsi_above_def rsi_below_def)
next
  case (Some v)
  assume "r \<noteq> Some (Fin 0)"
  with Some show ?thesis
    by (cases v) (auto simp: rsi_above_def rsi_below_def RSI_OVERBOUGHT_def RSI_OVERSOLD_def)
qed

lemma trend_mirror: "(map_option mirror_trend t = Some ''bearish'') = (t = Some ''bullish'')"
  by (cases t) (auto simp: mirror_trend_def)

lemma obv_mirror: "(map_option mirror_obv_trend t = Some ''falling'') = (t = Some ''rising'')"
  by (cases t) (auto simp: mirror_obv_trend_def)

lemma btc_mirror: "(mirror_trend t = ''bearish'') = (t = ''bullish'')"
  by (auto simp: mirror_trend_def)

lemma mirror_fields:
  "rsi_7 (mirror_analysis p a) = map_option mirror_rsi (rsi_7 a)"
  "rsi_14 (mirror_analysis p a) = map_option mirror_rsi (rsi_14 a)"
  "trend (mirror_analysis p a) = map_option mirror_trend (trend a)"
  "obv_trend (mirror_analysis p a) = map_option mirror_obv_trend (obv_trend a)"
  "volume_spike (mirror_analysis p a) = volume_spike a"
  by (simp_all add: mirror_analysis_def)

lemma mirror_prices:
  "current_price (mirror_analysis p a) = map_option (mirror_price p) (current_price a)"
  "resistance (mirror_analysis p a) = map_option (mirror_price p) (support a)"
  by (simp_all add: mirror_analysis_def)

text \<open>
  Claim C8 says that the short score of the mirrored input is the long score of the
  original. Two inputs show otherwise. A price of 103 over a support of 100 is outside the
  2% band on the long side, while its reflection around 1000 is within 2% of the reflected
  level; and an RSI of 0 earns no long point while its complement 100 earns the short one.
\<close>

theorem mirror_symmetry_counterexample:
  "score (check_long_conditions price_only_1m support_only_5m ''neutral'') = 0
   \<and> score (check_short_conditions (mirror_analysis 1000 price_only_1m)
              (mirror_analysis 1000 support_only_5m) (mirror_trend ''neutral'')) = 1
   \<and> score (check_long_conditions rsi_zero_1m empty_analysis ''neutral'') = 0
   \<and> score (check_short_conditions (mirror_analysis 50 rsi_zero_1m)
              (mirror_analysis 50 empty_analysis) (mirror_trend ''neutral'')) = 2"
  unfolding score_long score_short
  by (simp add: sample_simps mirror_analysis_def mirror_trend_def mirror_price_def)

text \<open>
  Claim C8 as amended: the trend, RSI-zone, OBV, volume and pattern rules are
  mirror-symmetric. For every input whose RSI values are not exactly 0, the short score of
  the mirrored input without its price-proximity point equals the long score of the original
  without its price-proximity point; so the two scores are equal whenever the proximity rule
  gives the same verdict on both sides, and differ by one otherwise.
\<close>

theorem mirror_symmetry_without_proximity:
  assumes "rsi_7 a1 \<noteq> Some (Fin 0)" and "rsi_14 a1 \<noteq> Some (Fin 0)"
  shows "score (check_short_conditions (mirror_analysis pivot a1) (mirror_analysis pivot a5)
                  (mirror_trend btc))
           - proximity_point (price_near_resistance (mirror_analysis pivot a1)
                                (mirror_analysis pivot a5))
         = score (check_long_conditions a1 a5 btc) - proximity_point (price_near_support a1 a5)"
  unfolding score_long score_short mirror_fields patterns_of_mirror first_pattern_mirror
    rsi_mirror [OF assms(1)] rsi_mirror [OF assms(2)] trend_mirror obv_mirror btc_mirror
    proximity_point_def
  by simp

theorem mirror_symmetry_without_proximity_witness:
  "rsi_7 all_rules_1m \<noteq> Some (Fin 0) \<and> rsi_14 all_rules_1m \<noteq> Some (Fin 0)
   \<and> price_near_support all_rules_1m all_rules_5m
   \<and> price_near_resistance (mirror_analysis 100 all_rules_1m) (mirror_analysis 100 all_rules_5m)
   \<and> score (check_short_conditions (mirror_analysis 100 all_rules_1m)
              (mirror_analysis 100 all_rules_5m) (mirror_trend ''bullish'')) = 8"
proof -
  have rsi: "rsi_7 all_rules_1m \<noteq> Some (Fin 0)" "rsi_14 all_rules_1m \<noteq> Some (Fin 0)"
    by (simp_all add: all_rules_1m_def)
  have near: "price_near_support all_rules_1m all_rules_5m"
    by (simp add: sample_simps)
  have near': "price_near_resistance (mirror_analysis 100 all_rules_1m)
                 (mirror_analysis 100 all_rules_5m)"
    by (simp add: price_near_resistance_def mirror_prices mirror_price_def all_rules_1m_def
          all_rules_5m_def empty_analysis_def)
  from mirror_symmetry_without_proximity [OF rsi, of 100 all_rules_5m "''bullish''"]
  have "score (check_short_conditions (mirror_analysis 100 all_rules_1m)
                 (mirror_analysis 100 all_rules_5m) (mirror_trend ''bullish'')) = 8"
    by (simp add: near near' proximity_point_def all_rules_long)
  with rsi near near' show ?thesis by simp
qed

section \<open>Properties of the targets and of the signal validation\<close>

lemma long_levels_formula:
  "calculate_fibonacci_levels hi lo ''long'' =
     [(''TP1'', lo + (hi - lo) * 0.382), (''TP2'', lo + (hi - lo) * 0.618),
      (''TP3'', lo + (hi - lo) * 1.0), (''TP4'', lo + (hi - lo) * 1.618)]"
  by (simp add: calculate_fibonacci_levels_def lower_long)

text \<open>
  Claim C9: for the direction long the targets are \<open>low + (high - low) \<times> ratio\<close>, for the
  direction short \<open>high - (high - low) \<times> ratio\<close>, with the ratios 0.382, 0.618, 1.0 and
  1.618 for TP1 to TP4; for a high of 110 and a low of 100 they are 103.82, 106.18, 110 and
  116.18 for long, and 106.18, 103.82, 100 and 93.82 for short. Over the reals the values
  are exact.
\<close>

theorem fibonacci_formula:
  "calculate_fibonacci_levels hi lo ''long'' =
     [(''TP1'', lo + (hi - lo) * 0.382), (''TP2'', lo + (hi - lo) * 0.618),
      (''TP3'', lo + (hi - lo) * 1.0), (''TP4'', lo + (hi - lo) * 1.618)]
   \<and> calculate_fibonacci_levels hi lo ''short'' =
     [(''TP1'', hi - (hi - lo) * 0.382), (''TP2'', hi - (hi - lo) * 0.618),
      (''TP3'', hi - (hi - lo) * 1.0), (''TP4'', hi - (hi - lo) * 1.618)]
   \<and> calculate_fibonacci_levels 110 100 ''long'' =
     [(''TP1'', 103.82), (''TP2'', 106.18), (''TP3'', 110.0), (''TP4'', 116.18)]
   \<and> calculate_fibonacci_levels 110 100 ''short'' =
     [(''TP1'', 106.18), (''TP2'', 103.82), (''TP3'', 100.0), (''TP4'', 93.82)]"
  by (simp add: calculate_fibonacci_levels_def lower_long lower_short)

theorem fibonacci_formula_witness:
  "map_of (calculate_fibonacci_levels 120 100 ''long'') ''TP2'' = Some 112.36
   \<and> map_of (calculate_fibonacci_levels 120 100 ''short'') ''TP4'' = Some 87.64"
  using fibonacci_formula [of 120 100] by simp

lemma fold_append_invariant:
  assumes "\<And>x acc. \<forall>y \<in> set acc. P y \<Longrightarrow> \<forall>y \<in> set (step x acc). P y"
      and "\<forall>y \<in> set acc0. P y"
  shows "\<forall>y \<in> set (fold step xs acc0). P y"
  using assms(2)
proof (induction xs arbitrary: acc0)
  case Nil
  then show ?case by simp
next
  case (Cons x xs)
  have "\<forall>y \<in> set (step x acc0). P y" using assms(1) Cons.prems by blast
  then show ?case using Cons.IH by simp
qed

lemma analyze_market_validated:
  "\<forall>(symbol, sg) \<in> set (analyze_market ta btc market).
      has_signal sg \<and> validate_signal_quality sg"
  unfolding analyze_market_def
  by (rule fold_append_invariant) (auto simp: Let_def split: prod.splits)

lemma test_signal_reads:
  "has_signal (test_signal k)" "strength (test_signal k) = k"
  "price (test_signal k) = Some (Fin 50000)" "stop_loss (test_signal k) = Some (Fin 49000)"
  "fibonacci_levels (test_signal k)
     = [(''TP1'', Fin 51000), (''TP2'', Fin 52000), (''TP3'', Fin 53000)]"
  by (simp_all add: test_signal_def initial_signal_def)

lemma sample_market:
  "analyze_market sample_ta ''bullish'' [(''ETH_USDT'', falling_frame, rising_frame)] =
     (if validate_signal_quality
           (snd (check_entry_conditions sample_ta falling_frame rising_frame ''bullish''))
      then [(''ETH_USDT'',
             snd (check_entry_conditions sample_ta falling_frame rising_frame ''bullish''))]
      else [])"
  unfolding analyze_market_def
  by (simp add: falling_rows_nonempty Let_def) (simp add: sample_entry)

subsection \<open>What the validation accepts\<close>

lemma not_or_at_most_zero_iff:
  "not_or_at_most_zero x \<longleftrightarrow> (\<forall>v. x = Some v \<longrightarrow> v \<noteq> NaN \<and> \<not> float_lt (Fin 0) v)"
proof (cases x)
  case None
  then show ?thesis by (simp add: not_or_at_most_zero_def)
next
  case (Some v)
  then show ?thesis
    by (cases v) (auto simp: not_or_at_most_zero_def float_le_def)
qed

text \<open>
  The exact condition: the price and the stop loss must be present and must not be a number
  that is at most 0, which lets \<open>NaN\<close> pass; every level must compare above 0.
\<close>

lemma validation_exact:
  "validate_signal_quality s \<longleftrightarrow>
      has_signal s \<and> 3 \<le> strength s
      \<and> (\<exists>p. price s = Some p \<and> (p = NaN \<or> float_lt (Fin 0) p))
      \<and> (\<exists>q. stop_loss s = Some q \<and> (q = NaN \<or> float_lt (Fin 0) q))
      \<and> fibonacci_levels s \<noteq> []
      \<and> (\<forall>(name, level) \<in> set (fibonacci_levels s). float_lt (Fin 0) level)"
  by (cases "price s"; cases "stop_loss s")
     (auto simp: validate_signal_quality_def not_or_at_most_zero_iff list_all_iff)

text \<open>
  On signals whose price and stop loss are not \<open>NaN\<close> the validation is the conjunction of
  has_signal, a strength of at least 3, a price above 0, a stop loss above 0 and a non-empty
  map of levels all above 0; a strength of 2 is always rejected; and \<open>analyze_market\<close> hands
  to the alerts only signals that the validation accepted.
\<close>

lemma validation_on_numbers:
  assumes "price s \<noteq> Some NaN" and "stop_loss s \<noteq> Some NaN"
  shows "validate_signal_quality s \<longleftrightarrow>
           has_signal s \<and> 3 \<le> strength s
           \<and> (\<exists>p. price s = Some p \<and> float_lt (Fin 0) p)
           \<and> (\<exists>q. stop_loss s = Some q \<and> float_lt (Fin 0) q)
           \<and> fibonacci_levels s \<noteq> []
           \<and> (\<forall>(name, level) \<in> set (fibonacci_levels s). float_lt (Fin 0) level)"
  unfolding validation_exact using assms by auto

lemma validation_needs_strength: "strength s < 3 \<Longrightarrow> \<not> validate_signal_quality s"
  by (simp add: validate_signal_quality_def)

lemma test_signals_validated:
  "validate_signal_quality (test_signal 5)" "\<not> validate_signal_quality (test_signal 2)"
  by (simp_all add: validate_signal_quality_def not_or_at_most_zero_def float_le_def
        test_signal_reads)

lemma sample_signal_validated:
  "validate_signal_quality
     (snd (check_entry_conditions sample_ta falling_frame rising_frame ''bullish''))"
  by (simp add: validate_signal_quality_def not_or_at_most_zero_def float_le_def sample_entry
        long_levels_formula as_floats_def)

lemma sample_market_surfaced:
  "analyze_market sample_ta ''bullish'' [(''ETH_USDT'', falling_frame, rising_frame)]
     = [(''ETH_USDT'',
         snd (check_entry_conditions sample_ta falling_frame rising_frame ''bullish''))]"
  by (simp add: sample_market sample_signal_validated)

text \<open>
  Claim C7 says that \<open>validate_signal_quality\<close> answers true if and only if the signal has
  \<open>has_signal\<close> set, a strength of at least 3, a price above 0, a stop loss above 0 and a
  non-empty map of Fibonacci levels all above 0. The tests on the price and on the stop
  loss are written \<open>not x or x <= 0\<close>, and a \<open>NaN\<close> is neither false nor at most 0: the
  signal of the repository's test with its price, or its stop loss, replaced by \<open>NaN\<close> is
  accepted, although \<open>NaN\<close> is not above 0. The test on the levels is written
  \<open>level > 0\<close> and does reject a \<open>NaN\<close> level.
\<close>

theorem validation_accepts_nan:
  "validate_signal_quality (test_signal 5\<lparr>price := Some NaN\<rparr>)
   \<and> validate_signal_quality (test_signal 5\<lparr>stop_loss := Some NaN\<rparr>)
   \<and> \<not> float_lt (Fin 0) NaN
   \<and> \<not> validate_signal_quality (test_signal 5\<lparr>fibonacci_levels := [(''TP1'', NaN)]\<rparr>)"
  by (simp add: validate_signal_quality_def not_or_at_most_zero_def float_le_def
        test_signal_def initial_signal_def)

theorem validation_accepts_nan_witness:
  "validate_signal_quality (test_signal 5\<lparr>price := Some NaN\<rparr>)
   \<and> \<not> (\<exists>p. price (test_signal 5\<lparr>price := Some NaN\<rparr>) = Some p \<and> float_lt (Fin 0) p)"
  using validation_accepts_nan by simp

section \<open>Properties of the indicator engine\<close>

subsection \<open>The snapshot reads the OHLCV columns only\<close>

lemma col_unstamped:
  "map opn (unstamped df) = col opn df" "map high (unstamped df) = col high df"
  "map low (unstamped df) = col low df" "map close (unstamped df) = col close df"
  "map volume (unstamped df) = col volume df"
  by (simp_all add: unstamped_def col_def)

lemma pattern_unstamped:
  "is_doji (c\<lparr>timestamp := t\<rparr>) = is_doji c"
  "is_hammer (c\<lparr>timestamp := t\<rparr>) = is_hammer c"
  "is_inverted_hammer (c\<lparr>timestamp := t\<rparr>) = is_inverted_hammer c"
  "is_bullish_engulfing (p\<lparr>timestamp := t'\<rparr>) (c\<lparr>timestamp := t\<rparr>) = is_bullish_engulfing p c"
  "is_bearish_engulfing (p\<lparr>timestamp := t'\<rparr>) (c\<lparr>timestamp := t\<rparr>) = is_bearish_engulfing p c"
  "is_bullish_pinbar (c\<lparr>timestamp := t\<rparr>) = is_bullish_pinbar c"
  "is_bearish_pinbar (c\<lparr>timestamp := t\<rparr>) = is_bearish_pinbar c"
  by (simp_all add: is_doji_def is_hammer_def is_inverted_hammer_def is_bullish_engulfing_def
        is_bearish_engulfing_def is_bullish_pinbar_def is_bearish_pinbar_def)

lemma plain_col: "col f (plain df) = map f (unstamped df)"
  by (simp add: plain_def col_def)

lemma plain_len: "df_len (plain df) = df_len df"
  by (simp add: plain_def df_len_def unstamped_def)

lemma plain_rows: "rows (plain df) = map (\<lambda>c. c\<lparr>timestamp := 0\<rparr>) (rows df)"
  by (simp add: plain_def unstamped_def)

lemma plain_patterns: "identify_candlestick_patterns (plain df) = identify_candlestick_patterns df"
proof (cases "df_len df < 3")
  case True
  then show ?thesis by (simp add: identify_candlestick_patterns_def plain_len)
next
  case False
  then have ne: "rows df \<noteq> []" and i: "df_len df - 2 < length (rows df)"
    by (auto simp: df_len_def)
  have l: "last (rows (plain df)) = (last (rows df))\<lparr>timestamp := 0\<rparr>"
    using ne by (simp add: plain_rows last_map)
  have p: "rows (plain df) ! (df_len df - 2) = (rows df ! (df_len df - 2))\<lparr>timestamp := 0\<rparr>"
    using i by (simp add: plain_rows)
  show ?thesis
    unfolding identify_candlestick_patterns_def plain_len Let_def l p pattern_unstamped ..
qed

lemma plain_analysis: "get_comprehensive_analysis ta (plain df) = get_comprehensive_analysis ta df"
  by (simp add: get_comprehensive_analysis_def analysis_body_def calculate_rsi_def
        calculate_ema_def calculate_obv_def calculate_atr_def analyze_trend_def
        detect_volume_spike_def calculate_support_resistance_def plain_len plain_col
        col_unstamped plain_patterns)


lemma indicator_last_None:
  "(indicator_last enough series = None) = (enough \<and> series = [])"
  by (simp add: indicator_last_def iloc_last_def)

lemma analysis_body_None:
  "(analysis_body ta df = None) =
     (rows df = []
      \<or> (7 \<le> df_len df \<and> calculate_rsi ta df 7 = [])
      \<or> (14 \<le> df_len df \<and> calculate_rsi ta df 14 = [])
      \<or> (20 \<le> df_len df \<and> calculate_ema ta df 20 = [])
      \<or> (50 \<le> df_len df \<and> calculate_ema ta df 50 = []))"
  unfolding analysis_body_def Let_def
  by (auto simp: bind_eq_None_conv indicator_last_None iloc_last_def col_def)

lemma analysis_body_price:
  "analysis_body ta df = Some a \<Longrightarrow>
     current_price a = Some (last (col close df)) \<and> current_volume a = Some (last (col volume df))"
  unfolding analysis_body_def Let_def
  by (auto simp: bind_eq_Some_conv iloc_last_def split: if_splits)

lemma empty_analysis_iff:
  "(get_comprehensive_analysis ta df = empty_analysis) = (analysis_body ta df = None)"
proof (cases "analysis_body ta df")
  case None
  then show ?thesis by (simp add: get_comprehensive_analysis_def)
next
  case (Some a)
  then have "current_price a \<noteq> None" using analysis_body_price by fastforce
  then have "a \<noteq> empty_analysis" by (auto simp: empty_analysis_def)
  with Some show ?thesis by (simp add: get_comprehensive_analysis_def)
qed


subsection \<open>Malformed series\<close>

lemma inconsistent_is_malformed: "malformed_series inconsistent_frame"
  by (simp add: malformed_series_def inconsistent_frame_def bar_def)

lemma inconsistent_len: "df_len inconsistent_frame = 3"
  by (simp add: df_len_def inconsistent_frame_def)

lemma inconsistent_price:
  "current_price (get_comprehensive_analysis ta inconsistent_frame) = Some 100.5"
proof -
  have "analysis_body ta inconsistent_frame \<noteq> None"
    unfolding analysis_body_None inconsistent_len by (simp add: inconsistent_frame_def)
  then obtain a where a: "analysis_body ta inconsistent_frame = Some a" by auto
  have "last (col close inconsistent_frame) = 100.5"
    by (simp add: col_def inconsistent_frame_def bar_def)
  with analysis_body_price [OF a] a show ?thesis
    by (simp add: get_comprehensive_analysis_def)
qed

lemma inconsistent_patterns:
  "candlestick_patterns (get_comprehensive_analysis ta inconsistent_frame) =
     Some (identify_candlestick_patterns inconsistent_frame)"
proof -
  have "analysis_body ta inconsistent_frame \<noteq> None"
    unfolding analysis_body_None inconsistent_len by (simp add: inconsistent_frame_def)
  then obtain a where a: "analysis_body ta inconsistent_frame = Some a" by auto
  then have "candlestick_patterns a = Some (identify_candlestick_patterns inconsistent_frame)"
    unfolding analysis_body_def Let_def
    by (auto simp: bind_eq_Some_conv)
  with a show ?thesis by (simp add: get_comprehensive_analysis_def)
qed

lemma inconsistent_hammer:
  "map_of (identify_candlestick_patterns inconsistent_frame) ''hammer'' = Some True"
  unfolding identify_candlestick_patterns_def inconsistent_len
  by (simp add: inconsistent_frame_def bar_def is_hammer_def Let_def)


text \<open>
  Claim C6 says that a window whose timestamps are not strictly increasing, or one of whose
  bars breaks the OHLC invariant, is rejected with a wholly absent snapshot. The engine has
  no such check. The sample window of three bars is malformed on both counts, and its
  snapshot carries the last close as the current price (and flags a hammer on the bar that
  closes above its high), whatever the indicator library answers.
\<close>

theorem malformed_series_counterexample:
  "\<not> (\<forall>ta df. malformed_series df \<longrightarrow> get_comprehensive_analysis ta df = empty_analysis)"
proof
  assume "\<forall>ta df. malformed_series df \<longrightarrow> get_comprehensive_analysis ta df = empty_analysis"
  then have "get_comprehensive_analysis sample_ta inconsistent_frame = empty_analysis"
    using inconsistent_is_malformed by blast
  then have "current_price (get_comprehensive_analysis sample_ta inconsistent_frame) = None"
    by (simp add: empty_analysis_def)
  then show False by (simp add: inconsistent_price)
qed

text \<open>
  Claim C6 as amended: the engine does not validate its window. The snapshot is the same
  for any two windows that agree on their bars up to the timestamps; it is the empty
  snapshot exactly when the window is empty or an indicator series that the window is long
  enough to read (RSI 7 from 7 bars, RSI 14 from 14, EMA 20 from 20, EMA 50 from 50) comes
  back empty; in every other case, malformed windows included, it carries the last close as
  the current price.
\<close>

theorem analysis_without_validation:
  "(unstamped df = unstamped df' \<longrightarrow>
      get_comprehensive_analysis ta df = get_comprehensive_analysis ta df')
   \<and> (get_comprehensive_analysis ta df = empty_analysis \<longleftrightarrow>
        rows df = []
        \<or> (7 \<le> df_len df \<and> calculate_rsi ta df 7 = [])
        \<or> (14 \<le> df_len df \<and> calculate_rsi ta df 14 = [])
        \<or> (20 \<le> df_len df \<and> calculate_ema ta df 20 = [])
        \<or> (50 \<le> df_len df \<and> calculate_ema ta df 50 = []))
   \<and> (get_comprehensive_analysis ta df \<noteq> empty_analysis \<longrightarrow>
        current_price (get_comprehensive_analysis ta df) = Some (last (col close df)))"
proof (intro conjI impI)
  assume "unstamped df = unstamped df'"
  then have "plain df = plain df'" by (simp add: plain_def)
  then show "get_comprehensive_analysis ta df = get_comprehensive_analysis ta df'"
    using plain_analysis [of ta df] plain_analysis [of ta df'] by simp
next
  show "get_comprehensive_analysis ta df = empty_analysis \<longleftrightarrow>
        rows df = []
        \<or> (7 \<le> df_len df \<and> calculate_rsi ta df 7 = [])
        \<or> (14 \<le> df_len df \<and> calculate_rsi ta df 14 = [])
        \<or> (20 \<le> df_len df \<and> calculate_ema ta df 20 = [])
        \<or> (50 \<le> df_len df \<and> calculate_ema ta df 50 = [])"
    unfolding empty_analysis_iff analysis_body_None ..
next
  assume "get_comprehensive_analysis ta df \<noteq> empty_analysis"
  then obtain a where a: "analysis_body ta df = Some a"
    unfolding empty_analysis_iff by auto
  then show "current_price (get_comprehensive_analysis ta df) = Some (last (col close df))"
    using analysis_body_price [OF a] by (simp add: get_comprehensive_analysis_def)
qed


theorem analysis_without_validation_witness:
  "unstamped inconsistent_frame
     = unstamped (inconsistent_frame\<lparr>rows := map (timestamp_update (\<lambda>_. 7)) (rows inconsistent_frame)\<rparr>)
   \<and> get_comprehensive_analysis sample_ta
         (inconsistent_frame\<lparr>rows := map (timestamp_update (\<lambda>_. 7)) (rows inconsistent_frame)\<rparr>)
       = get_comprehensive_analysis sample_ta inconsistent_frame
   \<and> get_comprehensive_analysis sample_ta inconsistent_frame \<noteq> empty_analysis
   \<and> current_price (get_comprehensive_analysis sample_ta inconsistent_frame) = Some 100.5
   \<and> get_comprehensive_analysis sample_ta no_frame = empty_analysis"
proof -
  let ?restamped =
    "inconsistent_frame\<lparr>rows := map (timestamp_update (\<lambda>_. 7)) (rows inconsistent_frame)\<rparr>"
  have same: "unstamped inconsistent_frame = unstamped ?restamped"
    by (simp add: unstamped_def)
  have full: "\<not> (rows inconsistent_frame = []
        \<or> (7 \<le> df_len inconsistent_frame \<and> calculate_rsi sample_ta inconsistent_frame 7 = [])
        \<or> (14 \<le> df_len inconsistent_frame \<and> calculate_rsi sample_ta inconsistent_frame 14 = [])
        \<or> (20 \<le> df_len inconsistent_frame \<and> calculate_ema sample_ta inconsistent_frame 20 = [])
        \<or> (50 \<le> df_len inconsistent_frame \<and> calculate_ema sample_ta inconsistent_frame 50 = []))"
    unfolding inconsistent_len by (simp add: inconsistent_frame_def)
  have last_close: "last (col close inconsistent_frame) = 100.5"
    by (simp add: col_def inconsistent_frame_def bar_def)
  note here = analysis_without_validation [of inconsistent_frame ?restamped sample_ta]
  note there = analysis_without_validation [of no_frame no_frame sample_ta]
  have a: "get_comprehensive_analysis sample_ta ?restamped
             = get_comprehensive_analysis sample_ta inconsistent_frame"
    using here same by simp
  have b: "get_comprehensive_analysis sample_ta inconsistent_frame \<noteq> empty_analysis"
    using here full by blast
  have c: "current_price (get_comprehensive_analysis sample_ta inconsistent_frame) = Some 100.5"
    using here b last_close by simp
  have d: "get_comprehensive_analysis sample_ta no_frame = empty_analysis"
    using there by (simp add: no_frame_def)
  from same a b c d show ?thesis by blast
qed

section \<open>Properties of the exit evaluator\<close>

lemma profit_pct_long: "e \<noteq> 0 \<Longrightarrow> profit_pct ''LONG'' e c = Fin ((c - e) / e * 100)"
  by (simp add: profit_pct_def np_div_def)

lemma profit_pct_short: "e \<noteq> 0 \<Longrightarrow> profit_pct ''SHORT'' e c = Fin ((e - c) / e * 100)"
  by (simp add: profit_pct_def np_div_def)

lemma trailing_guard:
  "float_le (profit_pct (direction_of p) (entry_price_of p) (last (col close df))) (Fin 1)
     \<Longrightarrow> check_trailing_stop p df = no_stop"
  by (simp add: check_trailing_stop_def iloc_last_def Let_def)

lemma long_at_100_reads:
  "direction_of long_at_100 = ''LONG''" "entry_price_of long_at_100 = 100"
  "levels_of long_at_100 = [(''TP1'', 110), (''TP2'', 120), (''TP3'', 130)]"
  by (simp_all add: direction_of_def entry_price_of_def levels_of_def long_at_100_def upper_long)

lemma pullback_columns:
  "col close pullback_frame = [106, 106, 106, 106, 106, 106, 106, 106, 106, 100.5]"
  "col low pullback_frame = [105, 105, 105, 105, 105, 105, 105, 105, 105, 100.5]"
  "col high pullback_frame = [107, 107, 107, 107, 107, 107, 107, 107, 107, 106]"
  by (simp_all add: col_def pullback_frame_def bar_def upt_0_numeral)

subsection \<open>The trailing stop waits for a profit above one percent\<close>

text \<open>
  Claim C4: the trailing-stop check answers \<open>should_stop = False\<close> whenever the unrealized
  profit, \<open>(price - entry) / entry \<times> 100\<close> for a long position and
  \<open>(entry - price) / entry \<times> 100\<close> for a short one, is at most 1, wherever the price stands
  against the trailing level. The percentage is that of a non-zero entry price.
\<close>

theorem trailing_stop_needs_profit:
  assumes "entry_price_of p \<noteq> 0"
      and "(direction_of p = ''LONG''
              \<and> (last (col close df) - entry_price_of p) / entry_price_of p * 100 \<le> 1)
           \<or> (direction_of p = ''SHORT''
              \<and> (entry_price_of p - last (col close df)) / entry_price_of p * 100 \<le> 1)"
  shows "should_stop (check_trailing_stop p df) = False"
proof -
  have "float_le (profit_pct (direction_of p) (entry_price_of p) (last (col close df))) (Fin 1)"
    using assms by (auto simp: profit_pct_long profit_pct_short float_le_def)
  then show ?thesis by (simp add: trailing_guard no_stop_def)
qed

text \<open>The sample position: a profit of half a percent, with the price (100.5) far below the
  trailing level \<open>0.995 \<times> 105\<close>; no stop.\<close>

theorem trailing_stop_needs_profit_witness:
  "entry_price_of long_at_100 \<noteq> 0
   \<and> direction_of long_at_100 = ''LONG''
   \<and> (last (col close pullback_frame) - entry_price_of long_at_100)
        / entry_price_of long_at_100 * 100 \<le> 1
   \<and> last (col close pullback_frame)
        \<le> series_max (tail (min 10 (df_len pullback_frame)) (col low pullback_frame)) * 0.995
   \<and> should_stop (check_trailing_stop long_at_100 pullback_frame) = False"
proof -
  have e: "entry_price_of long_at_100 \<noteq> 0" by (simp add: long_at_100_reads)
  have pct: "(last (col close pullback_frame) - entry_price_of long_at_100)
               / entry_price_of long_at_100 * 100 \<le> 1"
    by (simp add: long_at_100_reads pullback_columns)
  have len: "df_len pullback_frame = 10"
    by (simp add: df_len_def pullback_frame_def)
  have beyond: "last (col close pullback_frame)
        \<le> series_max (tail (min 10 (df_len pullback_frame)) (col low pullback_frame)) * 0.995"
    by (simp add: len pullback_columns tail_def series_max_def)
  from trailing_stop_needs_profit [of long_at_100 pullback_frame, OF e] pct
  have "should_stop (check_trailing_stop long_at_100 pullback_frame) = False"
    by (simp add: long_at_100_reads)
  with e pct beyond show ?thesis by (simp add: long_at_100_reads)
qed

subsection \<open>Take profit comes first\<close>

lemma find_None_list_ex: "(List.find P xs = None) = (\<not> list_ex P xs)"
  by (induction xs) auto

lemma fibonacci_hit_iff:
  "(check_fibonacci_levels p c \<noteq> None) = fibonacci_level_reached p c"
proof (cases "levels_of p = []")
  case True
  then show ?thesis
    by (simp add: check_fibonacci_levels_def fibonacci_level_reached_def)
next
  case False
  then show ?thesis
    unfolding check_fibonacci_levels_def fibonacci_level_reached_def Let_def
    by (auto simp: find_None_list_ex level_reached_def list_ex_iff split: option.splits)
qed

lemma fibonacci_reached_direction:
  "fibonacci_level_reached p c \<Longrightarrow> direction_of p = ''LONG'' \<or> direction_of p = ''SHORT''"
  by (auto simp: fibonacci_level_reached_def list_ex_iff split: option.splits)


lemma flat_len: "df_len flat_frame = 14"
  by (simp add: df_len_def flat_frame_def)

lemma flat_columns:
  "col close flat_frame = replicate 14 100" "col high flat_frame = replicate 14 100"
  "col low flat_frame = replicate 14 100"
  by (simp_all add: col_def flat_frame_def bar_def comp_def map_replicate_const)

lemma flat_nonempty: "rows flat_frame \<noteq> []"
  by (simp add: flat_frame_def upt_0_numeral)

lemma flat_last_close: "last (col close flat_frame) = 100"
  by (simp add: flat_columns)

lemma flat_true_range: "tail 14 (true_range_col flat_frame) = replicate 14 (Fin 0)"
  by (simp add: true_range_col_def high_low_col_def high_close_col_def low_close_col_def
        shift1_def col_def flat_frame_def bar_def upt_0_numeral tail_def skipna_max_def
        List.map_filter_simps series_max_def numeral_eq_Suc)

lemma flat_stop: "snd (calculate_atr_stop_loss flat_frame 14 m ''long'') = Some 100"
  unfolding calculate_atr_stop_loss_def Let_def flat_len rolling_mean_last_def flat_true_range
  by (simp add: lower_long flat_last_close mean_def List.map_filter_simps numeral_eq_Suc)

lemma flat_long_reads:
  "direction_of (flat_long e t) = ''LONG''"
  "entry_price_of (flat_long (Some e') t) = e'"
  "entry_price_of (flat_long None t) = 0"
  "levels_of (flat_long e t) = [(''TP1'', t), (''TP2'', t + 5), (''TP3'', t + 10)]"
  by (simp_all add: direction_of_def entry_price_of_def levels_of_def flat_long_def upper_long)

lemma flat_atr_stop_long:
  assumes "direction_of p = ''LONG''"
  shows "should_stop (snd (check_dynamic_stop_loss ta p flat_frame flat_frame))"
proof -
  have r: "atr_rule ''LONG'' 100 (snd (calculate_atr_stop_loss flat_frame 14 m ''long''))" for m
    by (simp add: flat_stop atr_rule_def)
  show ?thesis
    using r [of 2]
    by (simp add: check_dynamic_stop_loss_def Let_def assms iloc_last_def
          flat_last_close lower_LONG flat_columns stop_with_def case_prod_beta)
qed

lemma flat_atr_stop:
  "should_stop (snd (check_dynamic_stop_loss ta (flat_long e t) flat_frame flat_frame))"
  by (rule flat_atr_stop_long) (simp add: flat_long_reads)

lemma scorer_long_reads:
  "direction_of scorer_long = ''LONG''" "entry_price_of scorer_long = 95"
  "levels_of scorer_long = calculate_fibonacci_levels 100 90 ''long''"
  by (simp_all add: direction_of_def entry_price_of_def levels_of_def scorer_long_def upper_long)

lemma flat_reached: "fibonacci_level_reached (flat_long e 100) 100"
  by (simp add: fibonacci_level_reached_def flat_long_reads)

lemma flat_not_reached: "\<not> fibonacci_level_reached (flat_long e 110) 100"
  by (simp add: fibonacci_level_reached_def flat_long_reads)


lemma fib_order:
  fixes hi lo :: real
  assumes "lo \<le> hi"
  shows "(hi - lo) * 0.382 \<le> (hi - lo) * 0.618"
    and "(hi - lo) * 0.382 \<le> (hi - lo) * 1.0"
    and "(hi - lo) * 0.382 \<le> (hi - lo) * 1.618"
    and "0 \<le> (hi - lo) * 0.382"
    and "(hi - lo) * 0.382 \<le> hi - lo"
proof -
  from assms have d: "0 \<le> hi - lo" by simp
  show "(hi - lo) * 0.382 \<le> (hi - lo) * 0.618" using d by (intro mult_left_mono) simp_all
  show "(hi - lo) * 0.382 \<le> (hi - lo) * 1.0" using d by (intro mult_left_mono) simp_all
  show "(hi - lo) * 0.382 \<le> (hi - lo) * 1.618" using d by (intro mult_left_mono) simp_all
  show "0 \<le> (hi - lo) * 0.382" using d by (intro mult_nonneg_nonneg) simp_all
  have "(hi - lo) * 0.382 \<le> (hi - lo) * 1" using d by (intro mult_left_mono) simp_all
  then show "(hi - lo) * 0.382 \<le> hi - lo" by (simp only: mult_1_right)
qed

text \<open>On a position of the entry scorer, a price that has reached any stored level has
  reached TP1, which is stored and positive.\<close>

lemma scorer_levels_reached:
  assumes "scorer_position p hi lo" and "any_stored_level_reached p c"
  shows "fibonacci_level_reached p c"
proof -
  from assms(1) have lo: "0 < lo" and d: "lo \<le> hi"
    by (simp_all add: scorer_position_def)
  note m = fib_order [OF d]
  from assms(1) consider
      (long) "direction_of p = ''LONG''" "levels_of p = calculate_fibonacci_levels hi lo ''long''"
    | (short) "direction_of p = ''SHORT''" "levels_of p = calculate_fibonacci_levels hi lo ''short''"
    by (auto simp: scorer_position_def)
  then show ?thesis
  proof cases
    case long
    have some: "lo + (hi - lo) * 0.382 \<le> c \<or> lo + (hi - lo) * 0.618 \<le> c
                \<or> lo + (hi - lo) * 1.0 \<le> c \<or> lo + (hi - lo) * 1.618 \<le> c"
      using assms(2) long
      by (simp add: any_stored_level_reached_def calculate_fibonacci_levels_def lower_long Let_def)
    have first: "lo + (hi - lo) * 0.382 \<le> c"
      by (insert some m(1-3), elim disjE) linarith+
    have pos: "lo + (hi - lo) * 0.382 \<noteq> 0"
      using m(4) lo by linarith
    show ?thesis
      using long first pos
      by (simp add: fibonacci_level_reached_def calculate_fibonacci_levels_def lower_long Let_def)
  next
    case short
    have some: "c \<le> hi - (hi - lo) * 0.382 \<or> c \<le> hi - (hi - lo) * 0.618
                \<or> c \<le> hi - (hi - lo) * 1.0 \<or> c \<le> hi - (hi - lo) * 1.618"
      using assms(2) short
      by (simp add: any_stored_level_reached_def calculate_fibonacci_levels_def lower_short
            Let_def)
    have first: "c \<le> hi - (hi - lo) * 0.382"
      by (insert some m(1-3), elim disjE) linarith+
    have pos: "hi - (hi - lo) * 0.382 \<noteq> 0"
      using m(5) lo by linarith
    show ?thesis
      using short first pos
      by (simp add: fibonacci_level_reached_def calculate_fibonacci_levels_def lower_short
            Let_def)
  qed
qed

text \<open>
  Before any check the evaluator returns "no exit" for a dictionary without an entry price
  (or with a zero one) or without a direction; a position carries both.
\<close>

lemma no_entry_price_no_exit:
  "entry_price_of p = 0 \<or> direction_of p = [] \<Longrightarrow>
     analyze_exit_conditions ta symbol p df_1m df_5m = (df_1m, initial_exit_analysis)"
  by (auto simp: analyze_exit_conditions_def Let_def)

text \<open>
  Claim C2: for every position (it carries a non-zero entry price) and every two non-empty
  windows, the exit checks run in the order take profit, stop loss, reversal, trailing stop,
  and the first that fires is returned. In particular a price that has reached a stored
  level among TP1, TP2, TP3 gives \<open>take_profit\<close> and never \<open>stop_loss\<close>, whatever the
  stop-loss rules would say; on a position of the entry scorer the same holds for a price
  that has reached any stored level; and when no level is reached the exit type is that of
  the first of stop loss, reversal and trailing stop that fires, in this order, or none.
\<close>

theorem take_profit_first:
  assumes "rows df_1m \<noteq> []" and "rows df_5m \<noteq> []" and "entry_price_of p \<noteq> 0"
  shows "(fibonacci_level_reached p (last (col close df_1m)) \<longrightarrow>
            should_exit (snd (analyze_exit_conditions ta symbol p df_1m df_5m))
            \<and> exit_type (snd (analyze_exit_conditions ta symbol p df_1m df_5m)) = Some ''take_profit''
            \<and> exit_type (snd (analyze_exit_conditions ta symbol p df_1m df_5m)) \<noteq> Some ''stop_loss'')
       \<and> (scorer_position p hi lo \<and> any_stored_level_reached p (last (col close df_1m)) \<longrightarrow>
            should_exit (snd (analyze_exit_conditions ta symbol p df_1m df_5m))
            \<and> exit_type (snd (analyze_exit_conditions ta symbol p df_1m df_5m)) = Some ''take_profit'')
       \<and> (\<not> fibonacci_level_reached p (last (col close df_1m)) \<and> direction_of p \<noteq> [] \<longrightarrow>
            exit_type (snd (analyze_exit_conditions ta symbol p df_1m df_5m)) =
              (let (df', stop_loss_hit) = check_dynamic_stop_loss ta p df_1m df_5m
               in if should_stop stop_loss_hit then Some ''stop_loss''
                  else if reversal_exit (check_trend_reversal ta p df' df_5m) then Some ''reversal''
                  else if should_stop (check_trailing_stop p df') then Some ''trailing_stop''
                  else None))"
proof -
  let ?r = "snd (analyze_exit_conditions ta symbol p df_1m df_5m)"
  have first: "fibonacci_level_reached p (last (col close df_1m)) \<longrightarrow>
            should_exit ?r \<and> exit_type ?r = Some ''take_profit''
            \<and> exit_type ?r \<noteq> Some ''stop_loss''"
  proof
    assume r: "fibonacci_level_reached p (last (col close df_1m))"
    then obtain lv where lv: "check_fibonacci_levels p (last (col close df_1m)) = Some lv"
      using fibonacci_hit_iff [of p "last (col close df_1m)"] by auto
    have d: "direction_of p \<noteq> []" using fibonacci_reached_direction [OF r] by auto
    show "should_exit ?r \<and> exit_type ?r = Some ''take_profit''
          \<and> exit_type ?r \<noteq> Some ''stop_loss''"
      using assms d lv by (simp add: analyze_exit_conditions_def Let_def)
  qed
  have scorer: "scorer_position p hi lo \<and> any_stored_level_reached p (last (col close df_1m)) \<longrightarrow>
            should_exit ?r \<and> exit_type ?r = Some ''take_profit''"
    using first scorer_levels_reached [of p hi lo "last (col close df_1m)"] by blast
  have rest: "\<not> fibonacci_level_reached p (last (col close df_1m)) \<and> direction_of p \<noteq> [] \<longrightarrow>
            exit_type ?r =
              (let (df', stop_loss_hit) = check_dynamic_stop_loss ta p df_1m df_5m
               in if should_stop stop_loss_hit then Some ''stop_loss''
                  else if reversal_exit (check_trend_reversal ta p df' df_5m) then Some ''reversal''
                  else if should_stop (check_trailing_stop p df') then Some ''trailing_stop''
                  else None)"
  proof
    assume "\<not> fibonacci_level_reached p (last (col close df_1m)) \<and> direction_of p \<noteq> []"
    then have n: "check_fibonacci_levels p (last (col close df_1m)) = None"
      and d: "direction_of p \<noteq> []"
      using fibonacci_hit_iff [of p "last (col close df_1m)"] by auto
    show "exit_type ?r =
              (let (df', stop_loss_hit) = check_dynamic_stop_loss ta p df_1m df_5m
               in if should_stop stop_loss_hit then Some ''stop_loss''
                  else if reversal_exit (check_trend_reversal ta p df' df_5m) then Some ''reversal''
                  else if should_stop (check_trailing_stop p df') then Some ''trailing_stop''
                  else None)"
      using assms d n
      by (simp add: analyze_exit_conditions_def Let_def initial_exit_analysis_def
            split: prod.splits)
  qed
  from first scorer rest show ?thesis by blast
qed

text \<open>On the flat frame the ATR stop fires (the ATR is zero, so the stop is the price
  itself). With the first target at 100 the answer is still \<open>take_profit\<close>, and so it is
  for the position of the entry scorer, whose third target is 100; with the first target at
  110 the answer is \<open>stop_loss\<close>.\<close>

theorem take_profit_first_witness:
  "rows flat_frame \<noteq> [] \<and> entry_price_of (flat_long (Some 95) 100) \<noteq> 0
   \<and> fibonacci_level_reached (flat_long (Some 95) 100) (last (col close flat_frame))
   \<and> should_stop (snd (check_dynamic_stop_loss sample_ta (flat_long (Some 95) 100)
                         flat_frame flat_frame))
   \<and> exit_type (snd (analyze_exit_conditions sample_ta ''ETH_USDT'' (flat_long (Some 95) 100)
                       flat_frame flat_frame)) = Some ''take_profit''
   \<and> entry_price_of scorer_long \<noteq> 0 \<and> scorer_position scorer_long 100 90
   \<and> any_stored_level_reached scorer_long (last (col close flat_frame))
   \<and> should_stop (snd (check_dynamic_stop_loss sample_ta scorer_long flat_frame flat_frame))
   \<and> exit_type (snd (analyze_exit_conditions sample_ta ''ETH_USDT'' scorer_long
                       flat_frame flat_frame)) = Some ''take_profit''
   \<and> \<not> fibonacci_level_reached (flat_long (Some 95) 110) (last (col close flat_frame))
   \<and> exit_type (snd (analyze_exit_conditions sample_ta ''ETH_USDT'' (flat_long (Some 95) 110)
                       flat_frame flat_frame)) = Some ''stop_loss''"
proof -
  have e: "entry_price_of (flat_long (Some 95) t) \<noteq> 0" for t
    by (simp add: flat_long_reads)
  have e': "entry_price_of scorer_long \<noteq> 0"
    by (simp add: scorer_long_reads)
  have sp: "scorer_position scorer_long 100 90"
    by (simp add: scorer_position_def scorer_long_reads)
  have sr: "any_stored_level_reached scorer_long (last (col close flat_frame))"
    by (simp add: any_stored_level_reached_def scorer_long_reads flat_last_close
          calculate_fibonacci_levels_def lower_long)
  note hit = take_profit_first [OF flat_nonempty flat_nonempty e [of 100],
                of sample_ta "''ETH_USDT''", THEN conjunct1, rule_format]
  note computed = take_profit_first [OF flat_nonempty flat_nonempty e',
                where hi = 100 and lo = 90 and ta = sample_ta and symbol = "''ETH_USDT''",
                THEN conjunct2, THEN conjunct1, rule_format]
  note miss = take_profit_first [OF flat_nonempty flat_nonempty e [of 110],
                of sample_ta "''ETH_USDT''", THEN conjunct2, THEN conjunct2, rule_format]
  have a: "exit_type (snd (analyze_exit_conditions sample_ta ''ETH_USDT''
                             (flat_long (Some 95) 100) flat_frame flat_frame)) = Some ''take_profit''"
    using hit by (simp add: flat_last_close flat_reached)
  have c: "exit_type (snd (analyze_exit_conditions sample_ta ''ETH_USDT'' scorer_long
                             flat_frame flat_frame)) = Some ''take_profit''"
    using computed sp sr by simp
  have b: "exit_type (snd (analyze_exit_conditions sample_ta ''ETH_USDT''
                             (flat_long (Some 95) 110) flat_frame flat_frame)) = Some ''stop_loss''"
    using miss flat_atr_stop [of sample_ta "Some 95" 110]
    by (simp add: flat_last_close flat_not_reached flat_long_reads case_prod_beta)
  have s': "should_stop (snd (check_dynamic_stop_loss sample_ta scorer_long flat_frame flat_frame))"
    by (rule flat_atr_stop_long) (simp add: scorer_long_reads)
  show ?thesis
    using a b c e e' sp sr s' flat_atr_stop [of sample_ta "Some 95" 100]
    by (simp add: flat_nonempty flat_last_close flat_reached flat_not_reached)
qed

section \<open>What the operations leave in the caller's frame\<close>

lemma set_column_rows: "rows (set_column n s df) = rows df"
  by (simp add: set_column_def)

lemma set_column_keys: "fst ` set (extra (set_column n s df)) = insert n (fst ` set (extra df))"
  by (simp add: set_column_def dom_update)

lemma atr_stop_loss_rows: "rows (fst (calculate_atr_stop_loss df p m d)) = rows df"
  by (simp add: calculate_atr_stop_loss_def Let_def set_column_rows)

lemma atr_stop_loss_short: "df_len df < p \<Longrightarrow> fst (calculate_atr_stop_loss df p m d) = df"
  by (simp add: calculate_atr_stop_loss_def)

lemma atr_stop_loss_keys:
  "p \<le> df_len df \<Longrightarrow>
     fst ` set (extra (fst (calculate_atr_stop_loss df p m d))) = fst ` set (extra df) \<union> atr_columns"
  by (auto simp: calculate_atr_stop_loss_def Let_def set_column_keys atr_columns_def)

lemma entry_rows: "rows (fst (check_entry_conditions ta df_1m df_5m btc)) = rows df_1m"
  by (auto simp: check_entry_conditions_def entry_decision_def Let_def case_prod_beta
        atr_stop_loss_rows)

lemma entry_frame:
  "fst (check_entry_conditions ta df_1m df_5m btc) =
     (if has_signal (snd (check_entry_conditions ta df_1m df_5m btc))
      then fst (calculate_atr_stop_loss df_1m 14 2 ''long'') else df_1m)"
  by (auto simp: check_entry_conditions_def entry_decision_def Let_def case_prod_beta
        initial_signal_def calculate_atr_stop_loss_def)

lemma entry_signal_needs_fifty:
  "has_signal (snd (check_entry_conditions ta df_1m df_5m btc)) \<Longrightarrow> 50 \<le> df_len df_1m"
  by (auto simp: check_entry_conditions_def initial_signal_def split: if_splits)

lemma stop_loss_rows: "rows (fst (check_dynamic_stop_loss ta p df_1m df_5m)) = rows df_1m"
  by (auto simp: check_dynamic_stop_loss_def Let_def case_prod_beta atr_stop_loss_rows
        split: option.splits)

lemma stop_loss_frame:
  "rows df_1m \<noteq> [] \<Longrightarrow>
     fst (check_dynamic_stop_loss ta p df_1m df_5m)
       = fst (calculate_atr_stop_loss df_1m 14 2 (lower (direction_of p)))"
  by (auto simp: check_dynamic_stop_loss_def Let_def case_prod_beta iloc_last_def col_def
        split: option.splits)

lemma exit_rows: "rows (fst (analyze_exit_conditions ta symbol p df_1m df_5m)) = rows df_1m"
  by (auto simp: analyze_exit_conditions_def Let_def case_prod_beta stop_loss_rows
        split: option.splits)


text \<open>
  Claim C5 says that no core operation changes the candle data it is given: same columns,
  same values. The candle rows are indeed never changed (\<open>entry_rows\<close>, \<open>exit_rows\<close>), but
  \<open>calculate_atr_stop_loss\<close> assigns its four working columns to the frame it is given
  whenever the frame has at least \<open>atr_period\<close> rows. So \<open>check_entry_conditions\<close> leaves them
  in the one-minute frame whenever it emits a signal, and the dynamic stop-loss check of the
  exit evaluator whenever the frame has fourteen rows: the sample one-minute frame has no
  further column before the entry check and four after it.
\<close>

theorem frame_gets_working_columns:
  "(atr_period \<le> df_len df \<longrightarrow>
      atr_columns \<subseteq> fst ` set (extra (fst (calculate_atr_stop_loss df atr_period m d))))
   \<and> (has_signal (snd (check_entry_conditions ta df_1m df_5m btc)) \<longrightarrow>
      atr_columns \<subseteq> fst ` set (extra (fst (check_entry_conditions ta df_1m df_5m btc))))
   \<and> (14 \<le> df_len df_1m \<longrightarrow>
      atr_columns \<subseteq> fst ` set (extra (fst (check_dynamic_stop_loss ta p df_1m df_5m))))
   \<and> extra falling_frame = []
   \<and> map fst (extra (fst (check_entry_conditions sample_ta falling_frame rising_frame ''bullish'')))
       = [''high_low'', ''high_close'', ''low_close'', ''true_range'']
   \<and> fst (check_entry_conditions sample_ta falling_frame rising_frame ''bullish'') \<noteq> falling_frame"
proof -
  have a: "atr_period \<le> df_len df \<longrightarrow>
      atr_columns \<subseteq> fst ` set (extra (fst (calculate_atr_stop_loss df atr_period m d)))"
    by (simp add: atr_stop_loss_keys)
  have b: "has_signal (snd (check_entry_conditions ta df_1m df_5m btc)) \<longrightarrow>
      atr_columns \<subseteq> fst ` set (extra (fst (check_entry_conditions ta df_1m df_5m btc)))"
  proof
    assume h: "has_signal (snd (check_entry_conditions ta df_1m df_5m btc))"
    then have "14 \<le> df_len df_1m" using entry_signal_needs_fifty [OF h] by simp
    then show "atr_columns \<subseteq> fst ` set (extra (fst (check_entry_conditions ta df_1m df_5m btc)))"
      using h by (simp add: entry_frame atr_stop_loss_keys)
  qed
  have c: "14 \<le> df_len df_1m \<longrightarrow>
      atr_columns \<subseteq> fst ` set (extra (fst (check_dynamic_stop_loss ta p df_1m df_5m)))"
  proof
    assume l: "14 \<le> df_len df_1m"
    then have "rows df_1m \<noteq> []" by (auto simp: df_len_def)
    then show "atr_columns \<subseteq> fst ` set (extra (fst (check_dynamic_stop_loss ta p df_1m df_5m)))"
      using l by (simp add: stop_loss_frame atr_stop_loss_keys)
  qed
  have d: "extra falling_frame = []" by (simp add: falling_frame_def)
  have e: "map fst (extra (fst (check_entry_conditions sample_ta falling_frame rising_frame ''bullish'')))
       = [''high_low'', ''high_close'', ''low_close'', ''true_range'']"
    by (simp add: sample_entry falling_columns)
  have f: "fst (check_entry_conditions sample_ta falling_frame rising_frame ''bullish'') \<noteq> falling_frame"
    using d e by auto
  from a b c d e f show ?thesis by blast
qed


theorem frame_gets_working_columns_witness:
  "14 \<le> df_len falling_frame
   \<and> has_signal (snd (check_entry_conditions sample_ta falling_frame rising_frame ''bullish''))
   \<and> atr_columns \<subseteq> fst ` set (extra (fst (calculate_atr_stop_loss falling_frame 14 2 ''long'')))
   \<and> atr_columns
       \<subseteq> fst ` set (extra (fst (check_entry_conditions sample_ta falling_frame rising_frame
                                     ''bullish'')))
   \<and> atr_columns
       \<subseteq> fst ` set (extra (fst (check_dynamic_stop_loss sample_ta long_at_100 falling_frame
                                     rising_frame)))"
proof -
  have l: "14 \<le> df_len falling_frame" by (simp add: falling_len)
  have h: "has_signal (snd (check_entry_conditions sample_ta falling_frame rising_frame ''bullish''))"
    by (simp add: sample_entry)
  note t = frame_gets_working_columns [of 14 falling_frame 2 "''long''" sample_ta falling_frame
             rising_frame "''bullish''" long_at_100]
  from t l h show ?thesis by blast
qed

end
